theory Spec2Isabelle
  imports Complex_Main "HOL-Library.Log_Nat"
begin

section \<open>JavaScript values used by environmentService.ts\<close>

text \<open>
  A JavaScript string is modelled as \<^typ>\<open>string\<close> (code units below 256); a value of type
  \<open>string\<close> that may be \<open>undefined\<close> is a \<^typ>\<open>string option\<close>, with \<open>None\<close> for
  \<open>undefined\<close>. JavaScript tests such values by truthiness: \<open>undefined\<close> and the empty
  string are falsy, every other string is truthy.
\<close>

definition truthy_str :: "string option \<Rightarrow> bool" where
  "truthy_str s = (case s of None \<Rightarrow> False | Some x \<Rightarrow> x \<noteq> [])"

text \<open>\<open>a || b\<close> on two possibly undefined strings.\<close>

definition or_str :: "string option \<Rightarrow> string option \<Rightarrow> string option" where
  "or_str a b = (if truthy_str a then a else b)"

text \<open>
  A JavaScript number is an IEEE 754 double: not-a-number, the two infinities, negative
  zero, or a finite value, held here as the rational it denotes (\<open>Finite 0\<close> is \<open>+0\<close>).
\<close>

datatype jsnumber = NaN | PosInfinity | NegInfinity | NegZero | Finite rat

definition truthy_num :: "jsnumber \<Rightarrow> bool" where
  "truthy_num n = (case n of NaN \<Rightarrow> False | NegZero \<Rightarrow> False | Finite q \<Rightarrow> q \<noteq> 0 | _ \<Rightarrow> True)"

text \<open>A value of type \<open>number | null\<close>: \<open>None\<close> is \<open>null\<close>, which is falsy.\<close>

definition truthy_port :: "jsnumber option \<Rightarrow> bool" where
  "truthy_port p = (case p of None \<Rightarrow> False | Some n \<Rightarrow> truthy_num n)"

subsection \<open>Rounding a real value to a double\<close>

definition round_half_even :: "rat \<Rightarrow> int" where
  "round_half_even x =
     (let f = \<lfloor>x\<rfloor>; r = x - of_int f
      in if r < 1 / 2 then f else if 1 / 2 < r then f + 1 else if even f then f else f + 1)"

text \<open>The exponent \<open>e\<close> with \<open>2 ^ e \<le> q < 2 ^ (e + 1)\<close>, for \<open>q > 0\<close>.\<close>

definition binary_exponent :: "rat \<Rightarrow> int" where
  "binary_exponent q =
     (let (a, b) = quotient_of q; d = bitlen a - bitlen b
      in if (2::rat) powi d \<le> q then d else d - 1)"

text \<open>
  Round-to-nearest, ties-to-even, of a non-negative rational into the binary64 format:
  53 bits of precision, subnormals below \<open>2 ^ -1022\<close>, overflow to infinity at
  \<open>2 ^ 1024\<close>.
\<close>

definition round_double :: "rat \<Rightarrow> jsnumber" where
  "round_double q =
     (if q = 0 then Finite 0
      else let e = max (binary_exponent q) (- 1022);
               ulp = (2::rat) powi (e - 52);
               v = of_int (round_half_even (q / ulp)) * ulp
           in if (2::rat) ^ 1024 \<le> v then PosInfinity else Finite v)"

definition negate :: "jsnumber \<Rightarrow> jsnumber" where
  "negate n = (case n of NaN \<Rightarrow> NaN | PosInfinity \<Rightarrow> NegInfinity | NegInfinity \<Rightarrow> PosInfinity
     | NegZero \<Rightarrow> Finite 0 | Finite q \<Rightarrow> (if q = 0 then NegZero else Finite (- q)))"

subsection \<open>\<open>Number(value)\<close> on a string or \<open>undefined\<close>\<close>

text \<open>
  ECMAScript's StringToNumber: white space is stripped on both sides; the empty string is
  \<open>+0\<close>; \<open>0x\<close>, \<open>0o\<close> and \<open>0b\<close> introduce unsigned integer literals; otherwise an
  optional sign is followed by \<open>Infinity\<close> or by a decimal literal with optional fraction
  and exponent. Anything else is \<open>NaN\<close>, and so is \<open>undefined\<close>.
\<close>

definition isWhiteSpace :: "char \<Rightarrow> bool" where
  "isWhiteSpace c = (of_char c \<in> {9, 10, 11, 12, 13, 32, 160 :: nat})"

definition isDecimalDigit :: "char \<Rightarrow> bool" where
  "isDecimalDigit c = (48 \<le> (of_char c :: nat) \<and> (of_char c :: nat) \<le> 57)"

definition digitValue :: "char \<Rightarrow> int option" where
  "digitValue c =
     (let n = (of_char c :: int)
      in if 48 \<le> n \<and> n \<le> 57 then Some (n - 48)
         else if 97 \<le> n \<and> n \<le> 102 then Some (n - 87)
         else if 65 \<le> n \<and> n \<le> 70 then Some (n - 55)
         else None)"

text \<open>The value of a digit string in a radix; \<open>None\<close> if a character is not a digit of it.\<close>

fun digitsValue :: "int \<Rightarrow> int \<Rightarrow> string \<Rightarrow> int option" where
  "digitsValue radix acc [] = Some acc"
| "digitsValue radix acc (c # cs) =
     (case digitValue c of
        None \<Rightarrow> None
      | Some d \<Rightarrow> if d < radix then digitsValue radix (acc * radix + d) cs else None)"

definition radixLiteral :: "int \<Rightarrow> string \<Rightarrow> jsnumber" where
  "radixLiteral radix ds =
     (if ds = [] then NaN
      else case digitsValue radix 0 ds of None \<Rightarrow> NaN | Some n \<Rightarrow> round_double (of_int n))"

text \<open>The exponent part after the digits: empty, or \<open>e\<close>/\<open>E\<close>, an optional sign, digits.\<close>

definition exponentPart :: "string \<Rightarrow> int option" where
  "exponentPart s =
     (case s of
        [] \<Rightarrow> Some 0
      | c # r \<Rightarrow>
          if c = CHR ''e'' \<or> c = CHR ''E'' then
            (let neg = (r \<noteq> [] \<and> hd r = CHR ''-'');
                 ds = (if r \<noteq> [] \<and> (hd r = CHR ''+'' \<or> hd r = CHR ''-'') then tl r else r)
             in if ds = [] \<or> \<not> list_all isDecimalDigit ds then None
                else case digitsValue 10 0 ds of
                       None \<Rightarrow> None
                     | Some n \<Rightarrow> Some (if neg then - n else n))
          else None)"

definition unsignedDecimalLiteral :: "string \<Rightarrow> jsnumber" where
  "unsignedDecimalLiteral s =
     (if s = ''Infinity'' then PosInfinity
      else let ip = takeWhile isDecimalDigit s;
               r1 = dropWhile isDecimalDigit s;
               dot = (r1 \<noteq> [] \<and> hd r1 = CHR ''.'');
               fp = (if dot then takeWhile isDecimalDigit (tl r1) else []);
               r2 = (if dot then dropWhile isDecimalDigit (tl r1) else r1)
           in if ip = [] \<and> fp = [] then NaN
              else case (digitsValue 10 0 (ip @ fp), exponentPart r2) of
                     (Some m, Some e) \<Rightarrow>
                       round_double (of_int m * (10::rat) powi (e - int (length fp)))
                   | _ \<Rightarrow> NaN)"

definition decimalLiteral :: "string \<Rightarrow> jsnumber" where
  "decimalLiteral s =
     (case s of
        [] \<Rightarrow> NaN
      | c # r \<Rightarrow>
          if c = CHR ''+'' then unsignedDecimalLiteral r
          else if c = CHR ''-'' then negate (unsignedDecimalLiteral r)
          else unsignedDecimalLiteral s)"

definition trimWhiteSpace :: "string \<Rightarrow> string" where
  "trimWhiteSpace s = rev (dropWhile isWhiteSpace (rev (dropWhile isWhiteSpace s)))"

definition stringToNumber :: "string \<Rightarrow> jsnumber" where
  "stringToNumber str =
     (let s = trimWhiteSpace str
      in if s = [] then Finite 0
         else if take 2 s = ''0x'' \<or> take 2 s = ''0X'' then radixLiteral 16 (drop 2 s)
         else if take 2 s = ''0o'' \<or> take 2 s = ''0O'' then radixLiteral 8 (drop 2 s)
         else if take 2 s = ''0b'' \<or> take 2 s = ''0B'' then radixLiteral 2 (drop 2 s)
         else decimalLiteral s)"

definition Number :: "string option \<Rightarrow> jsnumber" where
  "Number v = (case v of None \<Rightarrow> NaN | Some s \<Rightarrow> stringToNumber s)"

section \<open>Debug ports\<close>

record IDebugParams =
  port :: "jsnumber option"
  break :: bool
  debugId :: "string option"

text \<open>
  \<^verbatim>\<open>
  const portStr = debugBrkArg || debugArg;
  const port = Number(portStr) || (!isBuild ? defaultBuildPort : null);
  const brk = port ? Boolean(!!debugBrkArg) : false;
  return { port, break: brk, debugId };
  \<close>
\<close>

definition parseDebugPort ::
  "string option \<Rightarrow> string option \<Rightarrow> jsnumber \<Rightarrow> bool \<Rightarrow> string option \<Rightarrow> IDebugParams" where
  "parseDebugPort debugArg debugBrkArg defaultBuildPort isBuild dbgId =
     (let portStr = or_str debugBrkArg debugArg;
          port = (if truthy_num (Number portStr) then Some (Number portStr)
                  else if \<not> isBuild then Some defaultBuildPort else None);
          brk = (if truthy_port port then truthy_str debugBrkArg else False)
      in \<lparr>port = port, break = brk, debugId = dbgId\<rparr>)"

section \<open>The ambient facts the service reads\<close>

text \<open>
  \<open>process\<close>: the platform identifier, the environment variables and the current working
  directory. An unset environment variable reads as \<open>undefined\<close>.
\<close>

record process =
  process_platform :: string
  process_env :: "string \<Rightarrow> string option"
  process_cwd :: string

text \<open>
  Node's \<open>path\<close> module, taken as given. \<open>path.resolve\<close> falls back on the working
  directory of the global process when its arguments give no absolute path; the module
  held here is the one bound to that global process. Every property below is proved for
  an arbitrary module, so for the POSIX and for the Windows variant alike.
\<close>

record path_module =
  path_join :: "string list \<Rightarrow> string"
  path_resolve :: "string list \<Rightarrow> string"
  path_normalize :: "string \<Rightarrow> string"
  path_dirname :: "string \<Rightarrow> string"

text \<open>
  The other globals of the module: the imports \<open>pkg\<close> and \<open>product\<close> (static metadata),
  \<open>os.homedir()\<close>, the hex-encoded SHA-256 digest of \<open>crypto\<close>,
  \<open>paths.getDefaultUserDataPath\<close> (the platform's default user-state root, by platform
  identifier) and the file-system path of \<open>require.toUrl('')\<close>. None of them is defined
  in environmentService.ts; they are parameters of the model.
\<close>

record globals =
  process :: process
  path :: path_module
  os_homedir :: string
  pkg_name :: string
  pkg_version :: string
  product_applicationName :: string
  product_nameLong :: string
  product_quality :: string
  product_dataFolderName :: string
  product_commit :: string
  sha256_hex :: "string \<Rightarrow> string"
  getDefaultUserDataPath :: "string \<Rightarrow> string"
  require_toUrl_fsPath :: string

text \<open>\<open>a || b\<close> where \<open>b\<close> is a string: the result is a string.\<close>

definition or_else :: "string option \<Rightarrow> string \<Rightarrow> string" where
  "or_else a b = (case a of None \<Rightarrow> b | Some x \<Rightarrow> if x \<noteq> [] then x else b)"

subsection \<open>An instance of the path module: POSIX paths\<close>

text \<open>
  Path arithmetic on \<open>/\<close>-separated segments in the manner of Node's \<open>path.posix\<close>:
  empty and \<open>.\<close> segments are dropped, \<open>..\<close> removes the segment before it. The
  instance serves the concrete evaluations below.
\<close>

fun split_slash :: "string \<Rightarrow> string \<Rightarrow> string list" where
  "split_slash cur [] = [rev cur]"
| "split_slash cur (c # cs) =
     (if c = CHR ''/'' then rev cur # split_slash [] cs else split_slash (c # cur) cs)"

fun join_slash :: "string list \<Rightarrow> string" where
  "join_slash [] = []"
| "join_slash [s] = s"
| "join_slash (s # t # ss) = s @ ''/'' @ join_slash (t # ss)"

fun normalizeSegments :: "bool \<Rightarrow> string list \<Rightarrow> string list \<Rightarrow> string list" where
  "normalizeSegments allowAboveRoot res [] = rev res"
| "normalizeSegments allowAboveRoot res (seg # segs) =
     (if seg = [] \<or> seg = ''.'' then normalizeSegments allowAboveRoot res segs
      else if seg = ''..'' then
        (if res \<noteq> [] \<and> hd res \<noteq> ''..'' then normalizeSegments allowAboveRoot (tl res) segs
         else if allowAboveRoot then normalizeSegments allowAboveRoot (''..'' # res) segs
         else normalizeSegments allowAboveRoot res segs)
      else normalizeSegments allowAboveRoot (seg # res) segs)"

definition normalizeStringPosix :: "string \<Rightarrow> bool \<Rightarrow> string" where
  "normalizeStringPosix p allowAboveRoot =
     join_slash (normalizeSegments allowAboveRoot [] (split_slash [] p))"

definition posix_normalize :: "string \<Rightarrow> string" where
  "posix_normalize p =
     (if p = [] then ''.''
      else let isAbsolute = (hd p = CHR ''/'');
               trailingSeparator = (last p = CHR ''/'');
               q = normalizeStringPosix p (\<not> isAbsolute);
               q1 = (if q = [] \<and> \<not> isAbsolute then ''.'' else q);
               q2 = (if q1 \<noteq> [] \<and> trailingSeparator then q1 @ ''/'' else q1)
           in if isAbsolute then CHR ''/'' # q2 else q2)"

text \<open>
  \<open>resolve\<close> prepends its arguments from right to left, then the working directory,
  until the path is absolute.
\<close>

fun resolve_loop :: "string list \<Rightarrow> string \<Rightarrow> string \<times> bool" where
  "resolve_loop [] resolvedPath = (resolvedPath, False)"
| "resolve_loop (p # ps) resolvedPath =
     (if p = [] then resolve_loop ps resolvedPath
      else if hd p = CHR ''/'' then (p @ ''/'' @ resolvedPath, True)
      else resolve_loop ps (p @ ''/'' @ resolvedPath))"

definition posix_resolve :: "string \<Rightarrow> string list \<Rightarrow> string" where
  "posix_resolve cwd segments =
     (let (resolvedPath, resolvedAbsolute) = resolve_loop (rev segments @ [cwd]) [];
          q = normalizeStringPosix resolvedPath (\<not> resolvedAbsolute)
      in if resolvedAbsolute then CHR ''/'' # q else if q \<noteq> [] then q else ''.'')"

definition posix_join :: "string list \<Rightarrow> string" where
  "posix_join segments =
     (let joined = join_slash (filter (\<lambda>s. s \<noteq> []) segments)
      in if joined = [] then ''.'' else posix_normalize joined)"

definition posix_dirname :: "string \<Rightarrow> string" where
  "posix_dirname p =
     (if p = [] then ''.''
      else let hasRoot = (hd p = CHR ''/'');
               r = dropWhile (\<lambda>c. c \<noteq> CHR ''/'') (dropWhile (\<lambda>c. c = CHR ''/'') (rev (tl p)))
           in if r = [] then (if hasRoot then ''/'' else ''.'')
              else if hasRoot \<and> length r = 1 then ''//''
              else take (length r) p)"

definition posix_path :: "string \<Rightarrow> path_module" where
  "posix_path cwd =
     \<lparr>path_join = posix_join, path_resolve = posix_resolve cwd,
      path_normalize = posix_normalize, path_dirname = posix_dirname\<rparr>"

section \<open>Path arguments and the user data directory\<close>

record ParsedArgs =
  arg_user_data_dir :: "string option"
  arg_extensions_dir :: "string option"
  arg_extensionDevelopmentPath :: "string option"
  arg_extensionTestsPath :: "string option"
  arg_disable_extensions :: "bool option"
  arg_skip_getting_started :: "bool option"
  arg_debugPluginHost :: "string option"
  arg_debugBrkPluginHost :: "string option"
  arg_debugId :: "string option"
  arg_debugSearch :: "string option"
  arg_debugBrkSearch :: "string option"
  arg_verbose :: "bool option"
  arg_wait :: "bool option"
  arg_logExtensionHostCommunication :: "bool option"
  arg_performance :: "bool option"
  arg_prof_startup :: "bool option"

text \<open>
  \<^verbatim>\<open>
  if (!arg) { return undefined; }
  const resolved = path.resolve(arg);
  if (path.normalize(arg) === resolved) { return resolved; }
  else { return path.resolve(process.env['VSCODE_CWD'] || process.cwd(), arg); }
  \<close>
\<close>

definition parsePathArg :: "globals \<Rightarrow> string option \<Rightarrow> process \<Rightarrow> string option" where
  "parsePathArg G arg proc =
     (if \<not> truthy_str arg then None
      else let a = the arg;
               resolved = path_resolve (path G) [a]
           in if path_normalize (path G) a = resolved then Some resolved
              else Some (path_resolve (path G)
                     [or_else (process_env proc ''VSCODE_CWD'') (process_cwd proc), a]))"

text \<open>
  \<^verbatim>\<open>
  return parsePathArg(args['user-data-dir'], process)
      || path.resolve(paths.getDefaultUserDataPath(process.platform));
  \<close>
\<close>

definition parseUserDataDir :: "globals \<Rightarrow> ParsedArgs \<Rightarrow> process \<Rightarrow> string" where
  "parseUserDataDir G args proc =
     or_else (parsePathArg G (arg_user_data_dir args) proc)
       (path_resolve (path G) [getDefaultUserDataPath G (process_platform proc)])"

section \<open>IPC handles\<close>

text \<open>
  \<^verbatim>\<open>
  if (process.platform === 'win32') { username = process.env.USERNAME; }
  else { username = process.env.USER; }
  if (!username) { return ''; }
  return crypto.createHash('sha256').update(username).digest('hex').substr(0, 6);
  \<close>
\<close>

definition getUniqueUserId :: "globals \<Rightarrow> string" where
  "getUniqueUserId G =
     (let username = (if process_platform (process G) = ''win32''
                      then process_env (process G) ''USERNAME''
                      else process_env (process G) ''USER'')
      in if \<not> truthy_str username then []
         else take 6 (sha256_hex G (the username)))"

definition getNixIPCHandle :: "globals \<Rightarrow> string \<Rightarrow> string \<Rightarrow> string" where
  "getNixIPCHandle G userDataPath type =
     (if truthy_str (process_env (process G) ''XDG_RUNTIME_DIR'')
      then path_join (path G)
             [the (process_env (process G) ''XDG_RUNTIME_DIR''),
              pkg_name G @ ''-'' @ pkg_version G @ ''-'' @ type @ ''.sock'']
      else path_join (path G) [userDataPath, pkg_version G @ ''-'' @ type @ ''.sock''])"

definition backslash :: char where
  "backslash = CHR 0x5C"

text \<open>The prefix \<^verbatim>\<open>\\.\pipe\\<close> of a Windows named pipe.\<close>

definition pipe_prefix :: string where
  "pipe_prefix = [backslash, backslash, CHR ''.'', backslash] @ ''pipe'' @ [backslash]"

definition getWin32IPCHandle :: "globals \<Rightarrow> string \<Rightarrow> string" where
  "getWin32IPCHandle G type =
     (let userId = getUniqueUserId G;
          name = product_applicationName G @ (if userId \<noteq> [] then ''-'' @ userId else [])
      in pipe_prefix @ name @ ''-'' @ pkg_version G @ ''-'' @ type @ ''-sock'')"

definition getIPCHandle :: "globals \<Rightarrow> string \<Rightarrow> string \<Rightarrow> string" where
  "getIPCHandle G userDataPath type =
     (if process_platform (process G) = ''win32''
      then getWin32IPCHandle G type
      else getNixIPCHandle G userDataPath type)"

section \<open>The file system\<close>

text \<open>
  \<open>fs.readFileSync\<close> and \<open>fs.writeFileSync\<close> throw on failure. The model holds the
  contents of the files and, per path, the fault a read or a write meets (a permission
  or I/O error); reading a path that holds no file fails with \<open>ENOENT\<close>. A thrown
  error is the \<open>Inl\<close> of a sum.
\<close>

datatype fs_error = ENOENT | EACCES | EIO

record filesystem =
  fs_files :: "string \<Rightarrow> string option"
  fs_read_fault :: "string \<Rightarrow> fs_error option"
  fs_write_fault :: "string \<Rightarrow> fs_error option"

definition readFileSync :: "filesystem \<Rightarrow> string \<Rightarrow> fs_error + string" where
  "readFileSync fs p =
     (case fs_read_fault fs p of
        Some e \<Rightarrow> Inl e
      | None \<Rightarrow> (case fs_files fs p of None \<Rightarrow> Inl ENOENT | Some contents \<Rightarrow> Inr contents))"

definition writeFileSync :: "filesystem \<Rightarrow> string \<Rightarrow> string \<Rightarrow> fs_error + filesystem" where
  "writeFileSync fs p contents =
     (case fs_write_fault fs p of
        Some e \<Rightarrow> Inl e
      | None \<Rightarrow> Inr (fs\<lparr>fs_files := (fs_files fs)(p \<mapsto> contents)\<rparr>))"

definition unlink :: "filesystem \<Rightarrow> string \<Rightarrow> filesystem" where
  "unlink fs p = fs\<lparr>fs_files := (fs_files fs)(p := None)\<rparr>"

section \<open>The environment service\<close>

record profile =
  profile_prefix :: "string option"
  profile_dir :: string

text \<open>
  The object: the two private constructor parameters, the \<open>machineUUID\<close> field
  (\<open>undefined\<close> until the constructor assigns it) and one cell per memoized getter,
  \<open>None\<close> while the getter has not run. A getter whose value may itself be \<open>undefined\<close>
  has a cell of type \<open>_ option option\<close>.
\<close>

record EnvironmentService =
  priv_args :: ParsedArgs
  priv_execPath :: string
  machineUUID :: "string option"
  memo_appRoot :: "string option"
  memo_userHome :: "string option"
  memo_userDataPath :: "string option"
  memo_appSettingsHome :: "string option"
  memo_appSettingsPath :: "string option"
  memo_appKeybindingsPath :: "string option"
  memo_isExtensionDevelopment :: "bool option"
  memo_backupHome :: "string option"
  memo_backupWorkspacesPath :: "string option"
  memo_workspacesHome :: "string option"
  memo_extensionsPath :: "string option"
  memo_extensionDevelopmentPath :: "string option option"
  memo_extensionTestsPath :: "string option option"
  memo_debugExtensionHost :: "IDebugParams option"
  memo_debugSearch :: "IDebugParams option"
  memo_profileStartup :: "profile option option"
  memo_mainIPCHandle :: "string option"
  memo_sharedIPCHandle :: "string option"
  memo_nodeCachedDataDir :: "string option option"

text \<open>
  Modelled from the spec: the \<open>@memoize\<close> decorator of \<open>vs/base/common/decorators\<close>, which
  is not among the sources. The specification describes it as a cache holding, per
  property, a once-computed value and a computed flag: the getter body runs at most once,
  at the first access, and every later access returns the stored value. \<open>cached\<close> reads
  the cell of the property and \<open>store\<close> fills it.
\<close>

definition memoize ::
  "(EnvironmentService \<Rightarrow> 'a option) \<Rightarrow> ('a \<Rightarrow> EnvironmentService \<Rightarrow> EnvironmentService) \<Rightarrow>
   (EnvironmentService \<Rightarrow> 'a \<times> EnvironmentService) \<Rightarrow> EnvironmentService \<Rightarrow> 'a \<times> EnvironmentService"
  where
  "memoize cached store fn this =
     (case cached this of
        Some v \<Rightarrow> (v, this)
      | None \<Rightarrow> (let (v, this') = fn this in (v, store v this')))"

subsection \<open>Getters\<close>

text \<open>
  A getter takes the globals as they are at the time of the access and the object, and
  returns its value with the object, whose cells it may have filled. Getters without
  \<open>@memoize\<close> leave the object as it is and are functions of the globals and the object.
\<close>

definition args :: "EnvironmentService \<Rightarrow> ParsedArgs" where
  "args this = priv_args this"

definition appRoot :: "globals \<Rightarrow> EnvironmentService \<Rightarrow> string \<times> EnvironmentService" where
  "appRoot G = memoize memo_appRoot (\<lambda>v s. s\<lparr>memo_appRoot := Some v\<rparr>)
     (\<lambda>this. (path_dirname (path G) (require_toUrl_fsPath G), this))"

definition execPath :: "EnvironmentService \<Rightarrow> string" where
  "execPath this = priv_execPath this"

definition userHome :: "globals \<Rightarrow> EnvironmentService \<Rightarrow> string \<times> EnvironmentService" where
  "userHome G = memoize memo_userHome (\<lambda>v s. s\<lparr>memo_userHome := Some v\<rparr>)
     (\<lambda>this. (os_homedir G, this))"

definition userDataPath :: "globals \<Rightarrow> EnvironmentService \<Rightarrow> string \<times> EnvironmentService" where
  "userDataPath G = memoize memo_userDataPath (\<lambda>v s. s\<lparr>memo_userDataPath := Some v\<rparr>)
     (\<lambda>this. (parseUserDataDir G (priv_args this) (process G), this))"

definition appNameLong :: "globals \<Rightarrow> string" where
  "appNameLong G = product_nameLong G"

definition appQuality :: "globals \<Rightarrow> string" where
  "appQuality G = product_quality G"

definition appSettingsHome :: "globals \<Rightarrow> EnvironmentService \<Rightarrow> string \<times> EnvironmentService" where
  "appSettingsHome G = memoize memo_appSettingsHome (\<lambda>v s. s\<lparr>memo_appSettingsHome := Some v\<rparr>)
     (\<lambda>this. let (udp, this1) = userDataPath G this
             in (path_join (path G) [udp, ''User''], this1))"

definition appSettingsPath :: "globals \<Rightarrow> EnvironmentService \<Rightarrow> string \<times> EnvironmentService" where
  "appSettingsPath G = memoize memo_appSettingsPath (\<lambda>v s. s\<lparr>memo_appSettingsPath := Some v\<rparr>)
     (\<lambda>this. let (home, this1) = appSettingsHome G this
             in (path_join (path G) [home, ''settings.json''], this1))"

definition appKeybindingsPath :: "globals \<Rightarrow> EnvironmentService \<Rightarrow> string \<times> EnvironmentService" where
  "appKeybindingsPath G =
     memoize memo_appKeybindingsPath (\<lambda>v s. s\<lparr>memo_appKeybindingsPath := Some v\<rparr>)
     (\<lambda>this. let (home, this1) = appSettingsHome G this
             in (path_join (path G) [home, ''keybindings.json''], this1))"

definition isExtensionDevelopment ::
  "globals \<Rightarrow> EnvironmentService \<Rightarrow> bool \<times> EnvironmentService" where
  "isExtensionDevelopment G =
     memoize memo_isExtensionDevelopment (\<lambda>v s. s\<lparr>memo_isExtensionDevelopment := Some v\<rparr>)
     (\<lambda>this. (truthy_str (arg_extensionDevelopmentPath (priv_args this)), this))"

definition backupHome :: "globals \<Rightarrow> EnvironmentService \<Rightarrow> string \<times> EnvironmentService" where
  "backupHome G = memoize memo_backupHome (\<lambda>v s. s\<lparr>memo_backupHome := Some v\<rparr>)
     (\<lambda>this. let (udp, this1) = userDataPath G this
             in (path_join (path G) [udp, ''Backups''], this1))"

definition backupWorkspacesPath ::
  "globals \<Rightarrow> EnvironmentService \<Rightarrow> string \<times> EnvironmentService" where
  "backupWorkspacesPath G =
     memoize memo_backupWorkspacesPath (\<lambda>v s. s\<lparr>memo_backupWorkspacesPath := Some v\<rparr>)
     (\<lambda>this. let (home, this1) = backupHome G this
             in (path_join (path G) [home, ''workspaces.json''], this1))"

definition workspacesHome :: "globals \<Rightarrow> EnvironmentService \<Rightarrow> string \<times> EnvironmentService" where
  "workspacesHome G = memoize memo_workspacesHome (\<lambda>v s. s\<lparr>memo_workspacesHome := Some v\<rparr>)
     (\<lambda>this. let (udp, this1) = userDataPath G this
             in (path_join (path G) [udp, ''Workspaces''], this1))"

text \<open>
  \<^verbatim>\<open>
  return parsePathArg(this._args['extensions-dir'], process)
      || process.env['VSCODE_EXTENSIONS']
      || path.join(this.userHome, product.dataFolderName, 'extensions');
  \<close>
\<close>

definition extensionsPath :: "globals \<Rightarrow> EnvironmentService \<Rightarrow> string \<times> EnvironmentService" where
  "extensionsPath G = memoize memo_extensionsPath (\<lambda>v s. s\<lparr>memo_extensionsPath := Some v\<rparr>)
     (\<lambda>this.
        if truthy_str (parsePathArg G (arg_extensions_dir (priv_args this)) (process G))
        then (the (parsePathArg G (arg_extensions_dir (priv_args this)) (process G)), this)
        else if truthy_str (process_env (process G) ''VSCODE_EXTENSIONS'')
        then (the (process_env (process G) ''VSCODE_EXTENSIONS''), this)
        else let (home, this1) = userHome G this
             in (path_join (path G) [home, product_dataFolderName G, ''extensions''], this1))"

definition extensionDevelopmentPath ::
  "globals \<Rightarrow> EnvironmentService \<Rightarrow> string option \<times> EnvironmentService" where
  "extensionDevelopmentPath G =
     memoize memo_extensionDevelopmentPath (\<lambda>v s. s\<lparr>memo_extensionDevelopmentPath := Some v\<rparr>)
     (\<lambda>this.
        (if truthy_str (arg_extensionDevelopmentPath (priv_args this))
         then Some (path_normalize (path G) (the (arg_extensionDevelopmentPath (priv_args this))))
         else arg_extensionDevelopmentPath (priv_args this), this))"

definition extensionTestsPath ::
  "globals \<Rightarrow> EnvironmentService \<Rightarrow> string option \<times> EnvironmentService" where
  "extensionTestsPath G =
     memoize memo_extensionTestsPath (\<lambda>v s. s\<lparr>memo_extensionTestsPath := Some v\<rparr>)
     (\<lambda>this.
        (if truthy_str (arg_extensionTestsPath (priv_args this))
         then Some (path_normalize (path G) (the (arg_extensionTestsPath (priv_args this))))
         else arg_extensionTestsPath (priv_args this), this))"

definition disableExtensions :: "EnvironmentService \<Rightarrow> bool option" where
  "disableExtensions this = arg_disable_extensions (priv_args this)"

definition skipGettingStarted :: "EnvironmentService \<Rightarrow> bool option" where
  "skipGettingStarted this = arg_skip_getting_started (priv_args this)"

definition isBuilt :: "globals \<Rightarrow> bool" where
  "isBuilt G = (\<not> truthy_str (process_env (process G) ''VSCODE_DEV''))"

definition parseExtensionHostPort :: "ParsedArgs \<Rightarrow> bool \<Rightarrow> IDebugParams" where
  "parseExtensionHostPort a isBuild =
     parseDebugPort (arg_debugPluginHost a) (arg_debugBrkPluginHost a) (Finite 5870) isBuild
       (arg_debugId a)"

definition parseSearchPort :: "ParsedArgs \<Rightarrow> bool \<Rightarrow> IDebugParams" where
  "parseSearchPort a isBuild =
     parseDebugPort (arg_debugSearch a) (arg_debugBrkSearch a) (Finite 5876) isBuild None"

definition debugExtensionHost ::
  "globals \<Rightarrow> EnvironmentService \<Rightarrow> IDebugParams \<times> EnvironmentService" where
  "debugExtensionHost G =
     memoize memo_debugExtensionHost (\<lambda>v s. s\<lparr>memo_debugExtensionHost := Some v\<rparr>)
     (\<lambda>this. (parseExtensionHostPort (priv_args this) (isBuilt G), this))"

definition debugSearch :: "globals \<Rightarrow> EnvironmentService \<Rightarrow> IDebugParams \<times> EnvironmentService" where
  "debugSearch G = memoize memo_debugSearch (\<lambda>v s. s\<lparr>memo_debugSearch := Some v\<rparr>)
     (\<lambda>this. (parseSearchPort (priv_args this) (isBuilt G), this))"

definition verbose :: "EnvironmentService \<Rightarrow> bool option" where
  "verbose this = arg_verbose (priv_args this)"

definition wait :: "EnvironmentService \<Rightarrow> bool option" where
  "wait this = arg_wait (priv_args this)"

definition logExtensionHostCommunication :: "EnvironmentService \<Rightarrow> bool option" where
  "logExtensionHostCommunication this = arg_logExtensionHostCommunication (priv_args this)"

definition performance :: "EnvironmentService \<Rightarrow> bool option" where
  "performance this = arg_performance (priv_args this)"

definition profileStartup ::
  "globals \<Rightarrow> EnvironmentService \<Rightarrow> profile option \<times> EnvironmentService" where
  "profileStartup G = memoize memo_profileStartup (\<lambda>v s. s\<lparr>memo_profileStartup := Some v\<rparr>)
     (\<lambda>this.
        (if arg_prof_startup (priv_args this) = Some True
         then Some \<lparr>profile_prefix = process_env (process G) ''VSCODE_PROFILES_PREFIX'',
                    profile_dir = os_homedir G\<rparr>
         else None, this))"

definition mainIPCHandle :: "globals \<Rightarrow> EnvironmentService \<Rightarrow> string \<times> EnvironmentService" where
  "mainIPCHandle G = memoize memo_mainIPCHandle (\<lambda>v s. s\<lparr>memo_mainIPCHandle := Some v\<rparr>)
     (\<lambda>this. let (udp, this1) = userDataPath G this in (getIPCHandle G udp ''main'', this1))"

definition sharedIPCHandle :: "globals \<Rightarrow> EnvironmentService \<Rightarrow> string \<times> EnvironmentService" where
  "sharedIPCHandle G = memoize memo_sharedIPCHandle (\<lambda>v s. s\<lparr>memo_sharedIPCHandle := Some v\<rparr>)
     (\<lambda>this. let (udp, this1) = userDataPath G this in (getIPCHandle G udp ''shared'', this1))"

definition nodeCachedDataDir ::
  "globals \<Rightarrow> EnvironmentService \<Rightarrow> string option \<times> EnvironmentService" where
  "nodeCachedDataDir G =
     memoize memo_nodeCachedDataDir (\<lambda>v s. s\<lparr>memo_nodeCachedDataDir := Some v\<rparr>)
     (\<lambda>this.
        if isBuilt G
        then let (udp, this1) = userDataPath G this
             in (Some (path_join (path G) [udp, ''CachedData'', product_commit G]), this1)
        else (None, this))"

subsection \<open>The constructor\<close>

text \<open>The object before the constructor body runs: no field assigned, no cell filled.\<close>

definition new_object :: "ParsedArgs \<Rightarrow> string \<Rightarrow> EnvironmentService" where
  "new_object a e =
     \<lparr>priv_args = a, priv_execPath = e, machineUUID = None,
      memo_appRoot = None, memo_userHome = None, memo_userDataPath = None,
      memo_appSettingsHome = None, memo_appSettingsPath = None, memo_appKeybindingsPath = None,
      memo_isExtensionDevelopment = None, memo_backupHome = None,
      memo_backupWorkspacesPath = None, memo_workspacesHome = None, memo_extensionsPath = None,
      memo_extensionDevelopmentPath = None, memo_extensionTestsPath = None,
      memo_debugExtensionHost = None, memo_debugSearch = None, memo_profileStartup = None,
      memo_mainIPCHandle = None, memo_sharedIPCHandle = None, memo_nodeCachedDataDir = None\<rparr>"

text \<open>
  \<^verbatim>\<open>
  const machineIdPath = path.join(this.userDataPath, 'machineid');
  try {
      this.machineUUID = fs.readFileSync(machineIdPath, 'utf8');
  } catch (err) {
      this.machineUUID = generateUuid();
      try { fs.writeFileSync(machineIdPath, this.machineUUID); }
      catch (err) { console.warn('Could not store machine ID'); }
  }
  \<close>
  \<open>generateUuid\<close> (of \<open>vs/base/common/uuid\<close>) draws a random token; \<open>uuid\<close> is the token
  it yields in this run if it is called. The result is the exception that leaves the
  constructor, or the object, the file system and the warnings written to the console.
\<close>

definition constructor ::
  "globals \<Rightarrow> filesystem \<Rightarrow> string \<Rightarrow> ParsedArgs \<Rightarrow> string \<Rightarrow>
   fs_error + (EnvironmentService \<times> filesystem \<times> string list)" where
  "constructor G fs uuid a e =
     (let (udp, this) = userDataPath G (new_object a e);
          machineIdPath = path_join (path G) [udp, ''machineid'']
      in case readFileSync fs machineIdPath of
           Inr contents \<Rightarrow> Inr (this\<lparr>machineUUID := Some contents\<rparr>, fs, [])
         | Inl err \<Rightarrow>
             (let this1 = this\<lparr>machineUUID := Some uuid\<rparr>
              in case writeFileSync fs machineIdPath uuid of
                   Inr fs1 \<Rightarrow> Inr (this1, fs1, [])
                 | Inl err1 \<Rightarrow> Inr (this1, fs, [''Could not store machine ID''])))"

text \<open>The path of the machine-identity file that the constructor reads and writes.\<close>

definition machineIdPath :: "globals \<Rightarrow> ParsedArgs \<Rightarrow> string" where
  "machineIdPath G a = path_join (path G) [parseUserDataDir G a (process G), ''machineid'']"

subsection \<open>Accesses in sequence\<close>

text \<open>
  The properties of the object, as one enumeration, and their values, as one type, so
  that a statement can range over every property and over sequences of accesses.
\<close>

datatype property =
    Args | AppRoot | ExecPath | UserHome | UserDataPath | AppNameLong | AppQuality
  | AppSettingsHome | AppSettingsPath | AppKeybindingsPath | IsExtensionDevelopment
  | BackupHome | BackupWorkspacesPath | WorkspacesHome | ExtensionsPath
  | ExtensionDevelopmentPath | ExtensionTestsPath | DisableExtensions | SkipGettingStarted
  | DebugExtensionHost | DebugSearch | IsBuilt | Verbose | Wait
  | LogExtensionHostCommunication | Performance | ProfileStartup | MainIPCHandle
  | SharedIPCHandle | NodeCachedDataDir | MachineUUID

datatype propval =
    ArgsVal ParsedArgs | StringVal string | OptStringVal "string option" | BoolVal bool
  | OptBoolVal "bool option" | DebugVal IDebugParams | ProfileVal "profile option"


text \<open>One access: the value read and the object after the access.\<close>

fun access :: "property \<Rightarrow> globals \<Rightarrow> EnvironmentService \<Rightarrow> propval \<times> EnvironmentService" where
  "access Args G this = (ArgsVal (args this), this)"
| "access AppRoot G this = apfst StringVal (appRoot G this)"
| "access ExecPath G this = (StringVal (execPath this), this)"
| "access UserHome G this = apfst StringVal (userHome G this)"
| "access UserDataPath G this = apfst StringVal (userDataPath G this)"
| "access AppNameLong G this = (StringVal (appNameLong G), this)"
| "access AppQuality G this = (StringVal (appQuality G), this)"
| "access AppSettingsHome G this = apfst StringVal (appSettingsHome G this)"
| "access AppSettingsPath G this = apfst StringVal (appSettingsPath G this)"
| "access AppKeybindingsPath G this = apfst StringVal (appKeybindingsPath G this)"
| "access IsExtensionDevelopment G this = apfst BoolVal (isExtensionDevelopment G this)"
| "access BackupHome G this = apfst StringVal (backupHome G this)"
| "access BackupWorkspacesPath G this = apfst StringVal (backupWorkspacesPath G this)"
| "access WorkspacesHome G this = apfst StringVal (workspacesHome G this)"
| "access ExtensionsPath G this = apfst StringVal (extensionsPath G this)"
| "access ExtensionDevelopmentPath G this = apfst OptStringVal (extensionDevelopmentPath G this)"
| "access ExtensionTestsPath G this = apfst OptStringVal (extensionTestsPath G this)"
| "access DisableExtensions G this = (OptBoolVal (disableExtensions this), this)"
| "access SkipGettingStarted G this = (OptBoolVal (skipGettingStarted this), this)"
| "access DebugExtensionHost G this = apfst DebugVal (debugExtensionHost G this)"
| "access DebugSearch G this = apfst DebugVal (debugSearch G this)"
| "access IsBuilt G this = (BoolVal (isBuilt G), this)"
| "access Verbose G this = (OptBoolVal (verbose this), this)"
| "access Wait G this = (OptBoolVal (wait this), this)"
| "access LogExtensionHostCommunication G this =
     (OptBoolVal (logExtensionHostCommunication this), this)"
| "access Performance G this = (OptBoolVal (performance this), this)"
| "access ProfileStartup G this = apfst ProfileVal (profileStartup G this)"
| "access MainIPCHandle G this = apfst StringVal (mainIPCHandle G this)"
| "access SharedIPCHandle G this = apfst StringVal (sharedIPCHandle G this)"
| "access NodeCachedDataDir G this = apfst OptStringVal (nodeCachedDataDir G this)"
| "access MachineUUID G this = (OptStringVal (machineUUID this), this)"

text \<open>
  A sequence of accesses, each under the globals as they are at that moment (the
  environment may have been changed in between); the object after the last one.
\<close>

fun run :: "(property \<times> globals) list \<Rightarrow> EnvironmentService \<Rightarrow> EnvironmentService" where
  "run [] this = this"
| "run ((p, G) # rest) this = run rest (snd (access p G this))"




section \<open>Concrete inputs\<close>

text \<open>
  A Linux process started in \<open>/home/alice/project\<close> by a wrapper that recorded the
  original directory \<open>/work\<close> in \<open>VSCODE_CWD\<close>, and the same user on Windows.
\<close>

definition example_env :: "string \<Rightarrow> string option" where
  "example_env = [''VSCODE_CWD'' \<mapsto> ''/work'', ''USER'' \<mapsto> ''alice'']"

definition example_process :: process where
  "example_process =
     \<lparr>process_platform = ''linux'', process_env = example_env,
      process_cwd = ''/home/alice/project''\<rparr>"

text \<open>The SHA-256 digest of \<open>alice\<close>, in hexadecimal.\<close>

definition example_sha256_hex :: "string \<Rightarrow> string" where
  "example_sha256_hex u =
     (if u = ''alice''
      then ''2bd806c97f0e00af1a1fc3328fa763a9269723c8db8fac4f93af71db186d6e90''
      else replicate 64 (CHR ''0''))"

definition example_globals :: globals where
  "example_globals =
     \<lparr>process = example_process,
      path = posix_path ''/home/alice/project'',
      os_homedir = ''/home/alice'',
      pkg_name = ''code-oss-dev'',
      pkg_version = ''1.12.0'',
      product_applicationName = ''code-oss'',
      product_nameLong = ''Code - OSS'',
      product_quality = ''stable'',
      product_dataFolderName = ''.vscode-oss'',
      product_commit = ''c1a2b3'',
      sha256_hex = example_sha256_hex,
      getDefaultUserDataPath = (\<lambda>platform. ''/home/alice/.config/code-oss-dev''),
      require_toUrl_fsPath = ''/opt/code/out''\<rparr>"

definition example_win32_process :: process where
  "example_win32_process =
     \<lparr>process_platform = ''win32'', process_env = [''USERNAME'' \<mapsto> ''alice''],
      process_cwd = ''/c/work''\<rparr>"

definition example_win32_globals :: globals where
  "example_win32_globals = example_globals\<lparr>process := example_win32_process\<rparr>"

definition example_xdg_globals :: globals where
  "example_xdg_globals =
     example_globals\<lparr>process := example_process
       \<lparr>process_env := [''XDG_RUNTIME_DIR'' \<mapsto> ''/run/user/1000'', ''USER'' \<mapsto> ''alice'']\<rparr>\<rparr>"

text \<open>
  A file system that holds no files and meets no fault, and one on which every write
  fails. Then the globals after \<open>process.env.VSCODE_DEV = '1'\<close>.
\<close>

definition example_fs :: filesystem where
  "example_fs =
     \<lparr>fs_files = Map.empty, fs_read_fault = (\<lambda>p. None), fs_write_fault = (\<lambda>p. None)\<rparr>"

definition example_readonly_fs :: filesystem where
  "example_readonly_fs = example_fs\<lparr>fs_write_fault := (\<lambda>p. Some EACCES)\<rparr>"

text \<open>A file system on which every write succeeds and every read is denied.\<close>

definition example_writeonly_fs :: filesystem where
  "example_writeonly_fs = example_fs\<lparr>fs_read_fault := (\<lambda>p. Some EACCES)\<rparr>"


definition no_args :: ParsedArgs where
  "no_args =
     \<lparr>arg_user_data_dir = None, arg_extensions_dir = None,
      arg_extensionDevelopmentPath = None, arg_extensionTestsPath = None,
      arg_disable_extensions = None, arg_skip_getting_started = None,
      arg_debugPluginHost = None, arg_debugBrkPluginHost = None, arg_debugId = None,
      arg_debugSearch = None, arg_debugBrkSearch = None, arg_verbose = None,
      arg_wait = None, arg_logExtensionHostCommunication = None, arg_performance = None,
      arg_prof_startup = None\<rparr>"



section \<open>Properties of the debug-port negotiation\<close>

subsection \<open>\<open>Number\<close> on the strings used below\<close>

lemma Number_undefined: "Number None = NaN"
  by (simp add: Number_def)

lemma Number_empty: "Number (Some []) = Finite 0"
  by (simp add: Number_def stringToNumber_def trimWhiteSpace_def)

lemma Number_5000: "Number (Some ''5000'') = Finite 5000"
  by code_simp

lemma Number_0: "Number (Some ''0'') = Finite 0"
  by code_simp

lemma Number_abc: "Number (Some ''abc'') = NaN"
  by code_simp

lemma Number_dot5: "Number (Some ''.5'') = Finite (1 / 2)"
  by code_simp

lemmas truthy_defs = or_str_def truthy_str_def truthy_port_def truthy_num_def

lemma parseDebugPort_port:
  "port (parseDebugPort debugArg debugBrkArg dflt isBuild dbgId) =
     (if truthy_num (Number (or_str debugBrkArg debugArg))
      then Some (Number (or_str debugBrkArg debugArg))
      else if isBuild then None else Some dflt)"
  by (simp add: parseDebugPort_def Let_def)

lemma parseDebugPort_break:
  "break (parseDebugPort debugArg debugBrkArg dflt isBuild dbgId) =
     (truthy_port (port (parseDebugPort debugArg debugBrkArg dflt isBuild dbgId))
      \<and> truthy_str debugBrkArg)"
  by (simp add: parseDebugPort_def Let_def)

lemma parseDebugPort_debugId:
  "debugId (parseDebugPort debugArg debugBrkArg dflt isBuild dbgId) = dbgId"
  by (simp add: parseDebugPort_def Let_def)

lemma parseDebugPort_falsy_source:
  assumes "\<not> truthy_num (Number (or_str debugBrkArg debugArg))"
  shows "parseDebugPort debugArg debugBrkArg dflt isBuild dbgId =
           \<lparr>port = (if isBuild then None else Some dflt),
            break = (\<not> isBuild \<and> truthy_num dflt \<and> truthy_str debugBrkArg),
            debugId = dbgId\<rparr>"
  using assms by (simp add: parseDebugPort_def Let_def truthy_port_def)

subsection \<open>Claim C1\<close>

text \<open>
  C1, as stated, fails: the string \<open>.5\<close> is not an integer in any reading, yet
  \<open>Number(".5")\<close> is the truthy number 0.5, so \<open>parseDebugPort(".5", undefined, 9229, false)\<close>
  returns port 0.5 and not the default 9229.
\<close>

theorem parseDebugPort_fraction_counterexample:
  "Number (Some ''.5'') = Finite (1 / 2) \<and> (1 / 2 :: rat) \<notin> \<int>
   \<and> port (parseDebugPort (Some ''.5'') None (Finite 9229) False None) = Some (Finite (1 / 2))
   \<and> port (parseDebugPort (Some ''.5'') None (Finite 9229) False None) \<noteq> Some (Finite 9229)"
  by (simp add: parseDebugPort_port truthy_defs Number_dot5)

text \<open>
  C1, amended. The effective port source is the break-specific argument when it is a
  non-empty string, else the plain attach argument. When \<open>Number\<close> of that source is
  \<open>NaN\<close> or zero (an absent, empty, blank, non-numeric or zero-valued source), the port is
  the default port when \<open>isBuild\<close> is false and absent when it is true; otherwise the port
  is \<open>Number\<close> of the source, whether or not that is an integer. With both arguments
  absent the port is the default or absent. The four vectors of the specification hold.
\<close>

theorem parseDebugPort_port_resolution:
  "port (parseDebugPort debugArg debugBrkArg dflt isBuild dbgId) =
     (if truthy_num (Number (if truthy_str debugBrkArg then debugBrkArg else debugArg))
      then Some (Number (if truthy_str debugBrkArg then debugBrkArg else debugArg))
      else if isBuild then None else Some dflt)
   \<and> port (parseDebugPort None None dflt isBuild dbgId) = (if isBuild then None else Some dflt)
   \<and> parseDebugPort (Some ''5000'') None (Finite 9229) False None =
        \<lparr>port = Some (Finite 5000), break = False, debugId = None\<rparr>
   \<and> parseDebugPort None (Some ''5000'') (Finite 9229) False None =
        \<lparr>port = Some (Finite 5000), break = True, debugId = None\<rparr>
   \<and> parseDebugPort None None (Finite 9229) False None =
        \<lparr>port = Some (Finite 9229), break = False, debugId = None\<rparr>
   \<and> parseDebugPort None None (Finite 9229) True None =
        \<lparr>port = None, break = False, debugId = None\<rparr>"
proof -
  have general: "port (parseDebugPort debugArg debugBrkArg dflt isBuild dbgId) =
     (if truthy_num (Number (if truthy_str debugBrkArg then debugBrkArg else debugArg))
      then Some (Number (if truthy_str debugBrkArg then debugBrkArg else debugArg))
      else if isBuild then None else Some dflt)"
    by (simp add: parseDebugPort_port or_str_def)
  have absent: "port (parseDebugPort None None dflt isBuild dbgId) =
      (if isBuild then None else Some dflt)"
    by (simp add: parseDebugPort_port truthy_defs Number_undefined)
  have v1: "parseDebugPort (Some ''5000'') None (Finite 9229) False None =
        \<lparr>port = Some (Finite 5000), break = False, debugId = None\<rparr>"
    by (simp add: parseDebugPort_def Let_def truthy_defs Number_5000)
  have v2: "parseDebugPort None (Some ''5000'') (Finite 9229) False None =
        \<lparr>port = Some (Finite 5000), break = True, debugId = None\<rparr>"
    by (simp add: parseDebugPort_def Let_def truthy_defs Number_5000)
  have v3: "parseDebugPort None None (Finite 9229) False None =
        \<lparr>port = Some (Finite 9229), break = False, debugId = None\<rparr>"
    by (simp add: parseDebugPort_def Let_def truthy_defs Number_undefined)
  have v4: "parseDebugPort None None (Finite 9229) True None =
        \<lparr>port = None, break = False, debugId = None\<rparr>"
    by (simp add: parseDebugPort_def Let_def truthy_defs Number_undefined)
  from general absent v1 v2 v3 v4 show ?thesis by blast
qed

subsection \<open>Claim C2\<close>

text \<open>
  C2, as stated, fails when the default port is 0 (or \<open>NaN\<close>): with an unparsable
  break-specific argument, \<open>parseDebugPort(undefined, "abc", 0, false)\<close> returns the
  non-absent port 0 with break false, because \<open>port ? ... : false\<close> tests the port for
  truthiness and not for absence.
\<close>

theorem parseDebugPort_break_counterexample:
  "port (parseDebugPort None (Some ''abc'') (Finite 0) False None) = Some (Finite 0)
   \<and> \<not> break (parseDebugPort None (Some ''abc'') (Finite 0) False None)
   \<and> \<not> (break (parseDebugPort None (Some ''abc'') (Finite 0) False None) =
        (port (parseDebugPort None (Some ''abc'') (Finite 0) False None) \<noteq> None
         \<and> Some ''abc'' \<noteq> (None :: string option)))"
  by (simp add: parseDebugPort_def Let_def truthy_defs Number_abc)

text \<open>
  C2, amended. For every input, break is true if and only if the returned port is truthy
  (non-absent, and a number other than 0 and \<open>NaN\<close>) and the break-specific argument is
  supplied, that is a non-empty string (\<open>!!debugBrkArg\<close>). When the default port is itself truthy, as 5870 and 5876 are, the
  returned port is truthy exactly when it is non-absent. When the break-specific argument
  is absent, break is false whatever port was resolved.
\<close>

theorem parseDebugPort_break_iff:
  "break (parseDebugPort debugArg debugBrkArg dflt isBuild dbgId) =
     (truthy_port (port (parseDebugPort debugArg debugBrkArg dflt isBuild dbgId))
      \<and> truthy_str debugBrkArg)
   \<and> (truthy_num dflt \<longrightarrow>
        break (parseDebugPort debugArg debugBrkArg dflt isBuild dbgId) =
          (port (parseDebugPort debugArg debugBrkArg dflt isBuild dbgId) \<noteq> None
           \<and> truthy_str debugBrkArg))
   \<and> \<not> break (parseDebugPort debugArg None dflt isBuild dbgId)"
proof -
  have "truthy_num dflt \<Longrightarrow>
      truthy_port (port (parseDebugPort debugArg debugBrkArg dflt isBuild dbgId)) =
        (port (parseDebugPort debugArg debugBrkArg dflt isBuild dbgId) \<noteq> None)"
    by (simp add: parseDebugPort_port truthy_port_def)
  moreover have "\<not> break (parseDebugPort debugArg None dflt isBuild dbgId)"
    by (simp add: parseDebugPort_break truthy_str_def)
  ultimately show ?thesis
    using parseDebugPort_break [of debugArg debugBrkArg dflt isBuild dbgId] by simp
qed

theorem parseDebugPort_break_iff_witness:
  "truthy_num (Finite 5870)
   \<and> break (parseDebugPort None (Some ''5000'') (Finite 5870) False None)
   \<and> port (parseDebugPort None (Some ''5000'') (Finite 5870) False None) = Some (Finite 5000)
   \<and> \<not> break (parseDebugPort (Some ''5000'') None (Finite 5870) False None)"
  using parseDebugPort_break_iff [of None "Some ''5000''" "Finite 5870" False None]
    parseDebugPort_break_iff [of "Some ''5000''" None "Finite 5870" False None]
  by (simp add: parseDebugPort_port truthy_defs Number_5000)

subsection \<open>Claim C10\<close>

text \<open>
  C10, as stated, fails in two places. With default port 0,
  \<open>parseDebugPort("0", undefined, 0, false)\<close> returns port 0: \<open>Number("0")\<close> is falsy and the
  default, itself 0, is returned, so the port is the integer 0. And \<open>0\<close> as the
  break-specific argument is not treated like an absent one:
  \<open>parseDebugPort(undefined, "0", 5870, false)\<close> has break true, where two absent arguments
  give break false.
\<close>

theorem parseDebugPort_zero_counterexample:
  "port (parseDebugPort (Some ''0'') None (Finite 0) False None) = Some (Finite 0)
   \<and> parseDebugPort None (Some ''0'') (Finite 5870) False None =
       \<lparr>port = Some (Finite 5870), break = True, debugId = None\<rparr>
   \<and> parseDebugPort None None (Finite 5870) False None =
       \<lparr>port = Some (Finite 5870), break = False, debugId = None\<rparr>
   \<and> parseDebugPort None (Some ''0'') (Finite 5870) False None \<noteq>
       parseDebugPort None None (Finite 5870) False None"
  by (simp add: parseDebugPort_def Let_def truthy_defs Number_0 Number_undefined)

text \<open>
  C10, amended. When the effective port string is \<open>0\<close>, the port is the default port when
  \<open>isBuild\<close> is false and absent when it is true; it is the integer 0 exactly when
  \<open>isBuild\<close> is false and the default port itself is 0. Break is true exactly when
  \<open>isBuild\<close> is false, the default port is truthy and the break-specific argument is non-empty.
  The whole result is the one a non-empty unparsable string in the same position gives;
  it is the one an absent argument gives when \<open>0\<close> is the attach argument, and not in
  general when it is the break-specific argument. In build mode the result is an absent
  port with break false; in particular for \<open>0\<close> as the break-specific argument.
\<close>

theorem parseDebugPort_zero_string:
  "((if truthy_str debugBrkArg then debugBrkArg else debugArg) = Some ''0'' \<longrightarrow>
      port (parseDebugPort debugArg debugBrkArg dflt isBuild dbgId) =
        (if isBuild then None else Some dflt)
      \<and> (port (parseDebugPort debugArg debugBrkArg dflt isBuild dbgId) = Some (Finite 0)) =
          (\<not> isBuild \<and> dflt = Finite 0)
      \<and> break (parseDebugPort debugArg debugBrkArg dflt isBuild dbgId) =
          (\<not> isBuild \<and> truthy_num dflt \<and> truthy_str debugBrkArg)
      \<and> (isBuild \<longrightarrow> parseDebugPort debugArg debugBrkArg dflt isBuild dbgId =
           \<lparr>port = None, break = False, debugId = dbgId\<rparr>)
      \<and> (u \<noteq> [] \<and> Number (Some u) = NaN \<longrightarrow>
           parseDebugPort (if debugArg = Some ''0'' then Some u else debugArg)
             (if debugBrkArg = Some ''0'' then Some u else debugBrkArg) dflt isBuild dbgId =
           parseDebugPort debugArg debugBrkArg dflt isBuild dbgId)
      \<and> (\<not> truthy_str debugBrkArg \<longrightarrow>
           parseDebugPort None debugBrkArg dflt isBuild dbgId =
           parseDebugPort debugArg debugBrkArg dflt isBuild dbgId))
   \<and> parseDebugPort debugArg (Some ''0'') dflt True dbgId =
       \<lparr>port = None, break = False, debugId = dbgId\<rparr>"
proof -
  have build: "parseDebugPort debugArg (Some ''0'') dflt True dbgId =
       \<lparr>port = None, break = False, debugId = dbgId\<rparr>"
    by (simp add: parseDebugPort_def Let_def truthy_defs Number_0)
  have general: ?thesis
    if eff: "(if truthy_str debugBrkArg then debugBrkArg else debugArg) = Some ''0''"
  proof -
    from eff have src: "or_str debugBrkArg debugArg = Some ''0''"
      by (simp add: or_str_def)
    then have falsy: "\<not> truthy_num (Number (or_str debugBrkArg debugArg))"
      by (simp add: Number_0 truthy_num_def)
    note r = parseDebugPort_falsy_source [OF falsy, of dflt isBuild dbgId]
    have unparsable: "parseDebugPort (if debugArg = Some ''0'' then Some u else debugArg)
             (if debugBrkArg = Some ''0'' then Some u else debugBrkArg) dflt isBuild dbgId =
           parseDebugPort debugArg debugBrkArg dflt isBuild dbgId"
      if u: "u \<noteq> [] \<and> Number (Some u) = NaN"
    proof -
      let ?a = "if debugArg = Some ''0'' then Some u else debugArg"
      let ?b = "if debugBrkArg = Some ''0'' then Some u else debugBrkArg"
      from u have tb: "truthy_str ?b = truthy_str debugBrkArg"
        by (simp add: truthy_str_def)
      from u eff have "or_str ?b ?a = Some u"
        by (auto simp: or_str_def truthy_str_def split: if_splits option.splits)
      with u have "\<not> truthy_num (Number (or_str ?b ?a))"
        by (simp add: truthy_num_def)
      from parseDebugPort_falsy_source [OF this, of dflt isBuild dbgId] r tb
      show ?thesis by simp
    qed
    have absent: "parseDebugPort None debugBrkArg dflt isBuild dbgId =
           parseDebugPort debugArg debugBrkArg dflt isBuild dbgId"
      if nb: "\<not> truthy_str debugBrkArg"
    proof -
      from nb have "or_str debugBrkArg None = None"
        by (auto simp: or_str_def truthy_str_def split: option.splits)
      then have "\<not> truthy_num (Number (or_str debugBrkArg None))"
        by (simp add: Number_undefined truthy_num_def)
      from parseDebugPort_falsy_source [OF this, of dflt isBuild dbgId] r
      show ?thesis by simp
    qed
    have zero: "(port (parseDebugPort debugArg debugBrkArg dflt isBuild dbgId) = Some (Finite 0)) =
          (\<not> isBuild \<and> dflt = Finite 0)"
      using r by auto
    have brk: "break (parseDebugPort debugArg debugBrkArg dflt isBuild dbgId) =
          (\<not> isBuild \<and> truthy_num dflt \<and> truthy_str debugBrkArg)"
      using r by simp
    have prt: "port (parseDebugPort debugArg debugBrkArg dflt isBuild dbgId) =
        (if isBuild then None else Some dflt)"
      using r by simp
    have bld: "isBuild \<longrightarrow> parseDebugPort debugArg debugBrkArg dflt isBuild dbgId =
           \<lparr>port = None, break = False, debugId = dbgId\<rparr>"
      using r by (cases isBuild) simp_all
    from prt zero brk bld unparsable absent build show ?thesis
      by blast
  qed
  from general build show ?thesis by blast
qed

theorem parseDebugPort_zero_string_witness:
  "(if truthy_str None then None else Some ''0'') = Some ''0''
   \<and> ''abc'' \<noteq> [] \<and> Number (Some ''abc'') = NaN
   \<and> parseDebugPort (Some ''0'') None (Finite 5876) False None =
       \<lparr>port = Some (Finite 5876), break = False, debugId = None\<rparr>
   \<and> parseDebugPort (Some ''abc'') None (Finite 5876) False None =
       parseDebugPort (Some ''0'') None (Finite 5876) False None
   \<and> \<not> truthy_str None
   \<and> parseDebugPort None None (Finite 5876) False None =
       parseDebugPort (Some ''0'') None (Finite 5876) False None
   \<and> parseDebugPort (Some ''0'') None (Finite 5876) True None =
       \<lparr>port = None, break = False, debugId = None\<rparr>
   \<and> (if truthy_str (Some ''0'') then Some ''0'' else Some ''5000'') = Some ''0''
   \<and> port (parseDebugPort (Some ''5000'') (Some ''0'') (Finite 5876) False None) =
       Some (Finite 5876)
   \<and> break (parseDebugPort (Some ''5000'') (Some ''0'') (Finite 5876) False None)
   \<and> parseDebugPort (Some ''5000'') (Some ''abc'') (Finite 5876) False None =
       parseDebugPort (Some ''5000'') (Some ''0'') (Finite 5876) False None"
proof -
  note a = parseDebugPort_zero_string [of None "Some ''0''" "Finite 5876" False None "''abc''"]
  note b = parseDebugPort_zero_string [of None "Some ''0''" "Finite 5876" True None "''abc''"]
  note c = parseDebugPort_zero_string
    [of "Some ''0''" "Some ''5000''" "Finite 5876" False None "''abc''"]
  have a': "parseDebugPort (Some ''0'') None (Finite 5876) False None =
       \<lparr>port = Some (Finite 5876), break = False, debugId = None\<rparr>"
    using a parseDebugPort_debugId [of "Some ''0''" None "Finite 5876" False None]
    by (cases "parseDebugPort (Some ''0'') None (Finite 5876) False None")
      (simp add: truthy_str_def)
  from a a' b c show ?thesis
    by (simp add: truthy_str_def truthy_num_def Number_abc)
qed

section \<open>Properties of path arguments and the user data directory\<close>

lemma or_else_truthy: "truthy_str v \<Longrightarrow> or_else v d = the v"
  by (auto simp: or_else_def truthy_str_def split: option.splits)

lemma or_else_falsy: "\<not> truthy_str v \<Longrightarrow> or_else v d = d"
  by (auto simp: or_else_def truthy_str_def split: option.splits)

lemma truthy_str_Some: "truthy_str (Some a) = (a \<noteq> [])"
  by (simp add: truthy_str_def)

lemma truthy_str_None: "\<not> truthy_str None"
  by (simp add: truthy_str_def)

lemma parsePathArg_absent: "\<not> truthy_str arg \<Longrightarrow> parsePathArg G arg proc = None"
  by (simp add: parsePathArg_def)

lemma parsePathArg_absolute:
  assumes "a \<noteq> []" and "path_normalize (path G) a = path_resolve (path G) [a]"
  shows "parsePathArg G (Some a) proc = Some (path_resolve (path G) [a])"
  using assms by (simp add: parsePathArg_def truthy_str_Some Let_def)

lemma parsePathArg_relative:
  assumes "a \<noteq> []" and "path_normalize (path G) a \<noteq> path_resolve (path G) [a]"
  shows "parsePathArg G (Some a) proc =
     Some (path_resolve (path G)
       [or_else (process_env proc ''VSCODE_CWD'') (process_cwd proc), a])"
  using assms by (simp add: parsePathArg_def truthy_str_Some Let_def)

lemma parsePathArg_None_iff: "(parsePathArg G arg proc = None) = (\<not> truthy_str arg)"
  by (simp add: parsePathArg_def Let_def)

lemma posix_resolve_nonempty: "posix_resolve cwd segments \<noteq> []"
  by (simp add: posix_resolve_def Let_def split: prod.splits)

lemma example_paths:
  "path_normalize (path example_globals) ''/srv/data'' = ''/srv/data''"
  "path_resolve (path example_globals) [''/srv/data''] = ''/srv/data''"
  "path_normalize (path example_globals) ''data'' = ''data''"
  "path_resolve (path example_globals) [''data''] = ''/home/alice/project/data''"
  "path_resolve (path example_globals) [''/work'', ''data''] = ''/work/data''"
  "path_resolve (path example_globals) [''/home/alice/project'', ''data''] =
     ''/home/alice/project/data''"
  "path_resolve (path example_globals) [''/home/alice/.config/code-oss-dev''] =
     ''/home/alice/.config/code-oss-dev''"
  by (simp_all add: example_globals_def posix_path_def posix_resolve_def posix_normalize_def
      normalizeStringPosix_def)

lemma example_facts:
  "process_env example_process ''VSCODE_CWD'' = Some ''/work''"
  "process_env example_process ''XDG_RUNTIME_DIR'' = None"
  "process_env example_process ''VSCODE_DEV'' = None"
  "process_env example_process ''VSCODE_EXTENSIONS'' = None"
  "process_platform example_process = ''linux''"
  "process_cwd example_process = ''/home/alice/project''"
  "process example_globals = example_process"
  by (simp_all add: example_process_def example_env_def example_globals_def)

subsection \<open>Claim C4\<close>

text \<open>
  C4. \<open>parsePathArg\<close> returns absent exactly for an absent argument, which by the test
  \<open>!arg\<close> is \<open>undefined\<close> or the empty string. For an argument that is already absolute
  (\<open>path.normalize(arg)\<close> equals \<open>path.resolve(arg)\<close>) it returns that resolved path,
  whatever the environment and the working directory of the process passed in: the
  override is not consulted. For a relative argument it returns the argument resolved
  against \<open>VSCODE_CWD\<close> when that is set (non-empty), else against \<open>process.cwd()\<close>. The
  function has no failing branch: every input gives absent or a path.
\<close>

theorem parsePathArg_resolution:
  "parsePathArg G None proc = None \<and> parsePathArg G (Some []) proc = None
   \<and> (parsePathArg G arg proc = None) = (\<not> truthy_str arg)
   \<and> (a \<noteq> [] \<and> path_normalize (path G) a = path_resolve (path G) [a] \<longrightarrow>
        parsePathArg G (Some a) proc = Some (path_resolve (path G) [a])
        \<and> parsePathArg G (Some a) proc' = parsePathArg G (Some a) proc)
   \<and> (a \<noteq> [] \<and> path_normalize (path G) a \<noteq> path_resolve (path G) [a] \<longrightarrow>
        (process_env proc ''VSCODE_CWD'' = Some d \<and> d \<noteq> [] \<longrightarrow>
           parsePathArg G (Some a) proc = Some (path_resolve (path G) [d, a]))
        \<and> (\<not> truthy_str (process_env proc ''VSCODE_CWD'') \<longrightarrow>
           parsePathArg G (Some a) proc = Some (path_resolve (path G) [process_cwd proc, a])))"
  by (simp add: parsePathArg_absent parsePathArg_absolute parsePathArg_relative
      parsePathArg_None_iff truthy_str_Some truthy_str_None or_else_truthy or_else_falsy)

theorem parsePathArg_resolution_witness:
  "''/srv/data'' \<noteq> []
   \<and> path_normalize (path example_globals) ''/srv/data'' =
       path_resolve (path example_globals) [''/srv/data'']
   \<and> parsePathArg example_globals (Some ''/srv/data'') example_process = Some ''/srv/data''
   \<and> parsePathArg example_globals (Some ''/srv/data'')
        (example_process\<lparr>process_env := Map.empty\<rparr>) = Some ''/srv/data''
   \<and> ''data'' \<noteq> []
   \<and> path_normalize (path example_globals) ''data'' \<noteq>
       path_resolve (path example_globals) [''data'']
   \<and> process_env example_process ''VSCODE_CWD'' = Some ''/work''
   \<and> parsePathArg example_globals (Some ''data'') example_process = Some ''/work/data''
   \<and> \<not> truthy_str (process_env (example_process\<lparr>process_env := Map.empty\<rparr>) ''VSCODE_CWD'')
   \<and> parsePathArg example_globals (Some ''data'')
        (example_process\<lparr>process_env := Map.empty\<rparr>) = Some ''/home/alice/project/data''"
  using
    parsePathArg_resolution [of example_globals example_process None "''/srv/data''"
      "example_process\<lparr>process_env := Map.empty\<rparr>" "[]"]
    parsePathArg_resolution [of example_globals example_process None "''data''"
      example_process "''/work''"]
    parsePathArg_resolution [of example_globals
      "example_process\<lparr>process_env := Map.empty\<rparr>" None "''data''" example_process "[]"]
  by (simp add: example_paths example_facts truthy_str_None)

subsection \<open>Claim C5\<close>

lemma parseUserDataDir_explicit:
  assumes "parsePathArg G (arg_user_data_dir pargs) proc = Some r" and "r \<noteq> []"
  shows "parseUserDataDir G pargs proc = r"
  using assms by (simp add: parseUserDataDir_def or_else_def)

lemma parseUserDataDir_default:
  assumes "\<not> truthy_str (arg_user_data_dir pargs)"
  shows "parseUserDataDir G pargs proc =
           path_resolve (path G) [getDefaultUserDataPath G (process_platform proc)]"
  using assms by (simp add: parseUserDataDir_def parsePathArg_absent or_else_def)

lemma parseUserDataDir_nonempty:
  assumes "\<forall>segments. path_resolve (path G) segments \<noteq> []"
  shows "parseUserDataDir G pargs proc \<noteq> []"
  using assms by (simp add: parseUserDataDir_def or_else_def split: option.splits)

lemma example_parse_rel:
  "parsePathArg example_globals (Some ''data'') example_process = Some ''/work/data''"
  by (simp add: parsePathArg_def truthy_str_Some Let_def example_paths example_facts or_else_def)

text \<open>
  C5. When the \<open>user-data-dir\<close> argument is present (non-empty), \<open>parseUserDataDir\<close>
  returns the path \<open>parsePathArg\<close> resolves it to; when it is absent (\<open>undefined\<close> or
  empty), it returns the platform's default user data path, resolved. The result is a
  string in either case, and a non-empty one as long as \<open>path.resolve\<close> never returns the
  empty string, which holds of Node's \<open>path.resolve\<close>.
\<close>

theorem parseUserDataDir_precedence:
  "(parsePathArg G (arg_user_data_dir pargs) proc = Some r \<and> r \<noteq> [] \<longrightarrow>
      parseUserDataDir G pargs proc = r)
   \<and> (\<not> truthy_str (arg_user_data_dir pargs) \<longrightarrow>
        parseUserDataDir G pargs proc =
          path_resolve (path G) [getDefaultUserDataPath G (process_platform proc)])
   \<and> ((\<forall>segments. path_resolve (path G) segments \<noteq> []) \<longrightarrow>
        parseUserDataDir G pargs proc \<noteq> [])"
  using parseUserDataDir_explicit [of G pargs proc r] parseUserDataDir_default [of pargs G proc]
    parseUserDataDir_nonempty [of G pargs proc]
  by blast

theorem parseUserDataDir_precedence_witness:
  "parsePathArg example_globals (arg_user_data_dir (no_args\<lparr>arg_user_data_dir := Some ''data''\<rparr>))
       example_process = Some ''/work/data''
   \<and> ''/work/data'' \<noteq> []
   \<and> parseUserDataDir example_globals (no_args\<lparr>arg_user_data_dir := Some ''data''\<rparr>)
        example_process = ''/work/data''
   \<and> \<not> truthy_str (arg_user_data_dir no_args)
   \<and> parseUserDataDir example_globals no_args example_process =
        ''/home/alice/.config/code-oss-dev''
   \<and> (\<forall>segments. path_resolve (path example_globals) segments \<noteq> [])
   \<and> parseUserDataDir example_globals no_args example_process \<noteq> []"
proof -
  have explicit: "parsePathArg example_globals
       (arg_user_data_dir (no_args\<lparr>arg_user_data_dir := Some ''data''\<rparr>)) example_process =
       Some ''/work/data''"
    by (simp add: example_parse_rel)
  have absent: "\<not> truthy_str (arg_user_data_dir no_args)"
    by (simp add: no_args_def truthy_str_None)
  have nonempty: "\<forall>segments. path_resolve (path example_globals) segments \<noteq> []"
    by (simp add: example_globals_def posix_path_def posix_resolve_nonempty)
  have dflt: "path_resolve (path example_globals)
      [getDefaultUserDataPath example_globals (process_platform example_process)] =
      ''/home/alice/.config/code-oss-dev''"
    using example_paths(7) by (simp add: example_globals_def)
  from explicit absent nonempty dflt
    parseUserDataDir_precedence [of example_globals
      "no_args\<lparr>arg_user_data_dir := Some ''data''\<rparr>" example_process "''/work/data''"]
    parseUserDataDir_precedence [of example_globals no_args example_process "''/work/data''"]
  show ?thesis by simp
qed

section \<open>Properties of the IPC handles\<close>

lemma getWin32IPCHandle_user:
  assumes "process_platform (process G) = ''win32''"
    and "process_env (process G) ''USERNAME'' = Some u" and "u \<noteq> []" and "sha256_hex G u \<noteq> []"
  shows "getWin32IPCHandle G type =
     pipe_prefix @ product_applicationName G @ ''-'' @ take 6 (sha256_hex G u) @ ''-'' @
       pkg_version G @ ''-'' @ type @ ''-sock''"
  using assms by (simp add: getWin32IPCHandle_def getUniqueUserId_def truthy_str_Some Let_def)

lemma getWin32IPCHandle_no_user:
  assumes "process_platform (process G) = ''win32''"
    and "\<not> truthy_str (process_env (process G) ''USERNAME'')"
  shows "getWin32IPCHandle G type =
     pipe_prefix @ product_applicationName G @ ''-'' @ pkg_version G @ ''-'' @ type @ ''-sock''"
  using assms by (simp add: getWin32IPCHandle_def getUniqueUserId_def Let_def)

lemma getNixIPCHandle_runtime_dir:
  assumes "process_env (process G) ''XDG_RUNTIME_DIR'' = Some d" and "d \<noteq> []"
  shows "getNixIPCHandle G udp type =
     path_join (path G) [d, pkg_name G @ ''-'' @ pkg_version G @ ''-'' @ type @ ''.sock'']"
  using assms by (simp add: getNixIPCHandle_def truthy_str_Some)

lemma getNixIPCHandle_user_data:
  assumes "\<not> truthy_str (process_env (process G) ''XDG_RUNTIME_DIR'')"
  shows "getNixIPCHandle G udp type =
     path_join (path G) [udp, pkg_version G @ ''-'' @ type @ ''.sock'']"
  using assms by (simp add: getNixIPCHandle_def)

lemma example_win32_facts:
  "process_platform (process example_win32_globals) = ''win32''"
  "process_env (process example_win32_globals) ''USERNAME'' = Some ''alice''"
  "sha256_hex example_win32_globals ''alice'' =
     ''2bd806c97f0e00af1a1fc3328fa763a9269723c8db8fac4f93af71db186d6e90''"
  "product_applicationName example_win32_globals = ''code-oss''"
  "pkg_version example_win32_globals = ''1.12.0''"
  by (simp_all add: example_win32_globals_def example_win32_process_def example_globals_def
      example_sha256_hex_def)

lemma example_xdg_facts:
  "process_platform (process example_xdg_globals) = ''linux''"
  "process_env (process example_xdg_globals) ''XDG_RUNTIME_DIR'' = Some ''/run/user/1000''"
  "pkg_name example_xdg_globals = ''code-oss-dev''"
  "pkg_version example_xdg_globals = ''1.12.0''"
  "path_join (path example_xdg_globals) [''/run/user/1000'', ''code-oss-dev-1.12.0-main.sock''] =
     ''/run/user/1000/code-oss-dev-1.12.0-main.sock''"
  by (simp_all add: example_xdg_globals_def example_process_def example_globals_def
      posix_path_def posix_join_def posix_normalize_def normalizeStringPosix_def)

lemma example_linux_facts:
  "process_platform (process example_globals) = ''linux''"
  "process_env (process example_globals) ''XDG_RUNTIME_DIR'' = None"
  "pkg_version example_globals = ''1.12.0''"
  "path_join (path example_globals) [''/srv/data'', ''1.12.0-shared.sock''] =
     ''/srv/data/1.12.0-shared.sock''"
  by (simp_all add: example_process_def example_globals_def example_env_def
      posix_path_def posix_join_def posix_normalize_def normalizeStringPosix_def)

subsection \<open>Claim C6\<close>

text \<open>
  C6, as stated, fails on the application name: the claim has one \<open>{appName}\<close> in both
  formats, the code takes \<open>product.applicationName\<close> for the Windows pipe and \<open>pkg.name\<close>
  for the socket in the runtime directory. With the same metadata on both platforms
  (\<open>code-oss\<close> and \<open>code-oss-dev\<close>) the pipe is named after the first and the socket after
  the second, so neither name fits both formats.
\<close>

theorem getIPCHandle_appName_counterexample:
  "product_applicationName example_win32_globals = product_applicationName example_xdg_globals
   \<and> pkg_name example_win32_globals = pkg_name example_xdg_globals
   \<and> getIPCHandle example_win32_globals ''/srv/data'' ''main'' =
       pipe_prefix @ ''code-oss-2bd806-1.12.0-main-sock''
   \<and> getIPCHandle example_xdg_globals ''/srv/data'' ''main'' =
       ''/run/user/1000/code-oss-dev-1.12.0-main.sock''
   \<and> getIPCHandle example_win32_globals ''/srv/data'' ''main'' \<noteq>
       pipe_prefix @ ''code-oss-dev-2bd806-1.12.0-main-sock''
   \<and> getIPCHandle example_xdg_globals ''/srv/data'' ''main'' \<noteq>
       ''/run/user/1000/code-oss-1.12.0-main.sock''"
proof -
  have names: "product_applicationName example_win32_globals =
      product_applicationName example_xdg_globals"
    "pkg_name example_win32_globals = pkg_name example_xdg_globals"
    by (simp_all add: example_win32_globals_def example_xdg_globals_def)
  have "getWin32IPCHandle example_win32_globals ''main'' =
      pipe_prefix @ product_applicationName example_win32_globals @ ''-'' @
        take 6 (sha256_hex example_win32_globals ''alice'') @ ''-'' @
        pkg_version example_win32_globals @ ''-'' @ ''main'' @ ''-sock''"
    by (rule getWin32IPCHandle_user) (simp_all add: example_win32_facts)
  then have win: "getIPCHandle example_win32_globals ''/srv/data'' ''main'' =
      pipe_prefix @ ''code-oss-2bd806-1.12.0-main-sock''"
    by (simp add: getIPCHandle_def example_win32_facts)
  have "getNixIPCHandle example_xdg_globals ''/srv/data'' ''main'' =
      path_join (path example_xdg_globals)
        [''/run/user/1000'', pkg_name example_xdg_globals @ ''-'' @
          pkg_version example_xdg_globals @ ''-'' @ ''main'' @ ''.sock'']"
    by (rule getNixIPCHandle_runtime_dir) (simp_all add: example_xdg_facts)
  then have nix: "getIPCHandle example_xdg_globals ''/srv/data'' ''main'' =
      ''/run/user/1000/code-oss-dev-1.12.0-main.sock''"
    by (simp add: getIPCHandle_def example_xdg_facts)
  from names win nix show ?thesis by simp
qed

text \<open>
  C6, amended. \<open>getIPCHandle\<close> branches on \<open>process.platform === 'win32'\<close> alone. On
  Windows the handle is the pipe prefix, \<open>product.applicationName\<close>, then \<open>-\<close> and the first
  six characters of the hex SHA-256 digest of \<open>USERNAME\<close> when a user name is available
  (the segment is left out when it is not), then \<open>-{pkg.version}-{type}-sock\<close>; the user
  data path plays no part. Elsewhere it is \<open>{pkg.name}-{pkg.version}-{type}.sock\<close> joined
  onto \<open>XDG_RUNTIME_DIR\<close> when that is set (non-empty), else \<open>{pkg.version}-{type}.sock\<close>
  joined onto the user data path. The name in the pipe is the product's application name,
  the name in the socket is the package name.
\<close>

theorem getIPCHandle_format:
  "(process_platform (process G) = ''win32'' \<longrightarrow>
      (process_env (process G) ''USERNAME'' = Some u \<and> u \<noteq> [] \<and> sha256_hex G u \<noteq> [] \<longrightarrow>
         getIPCHandle G udp type =
           pipe_prefix @ product_applicationName G @ ''-'' @ take 6 (sha256_hex G u) @ ''-'' @
             pkg_version G @ ''-'' @ type @ ''-sock'')
      \<and> (\<not> truthy_str (process_env (process G) ''USERNAME'') \<longrightarrow>
         getIPCHandle G udp type =
           pipe_prefix @ product_applicationName G @ ''-'' @ pkg_version G @ ''-'' @ type @
             ''-sock''))
   \<and> (process_platform (process G) \<noteq> ''win32'' \<longrightarrow>
      (process_env (process G) ''XDG_RUNTIME_DIR'' = Some d \<and> d \<noteq> [] \<longrightarrow>
         getIPCHandle G udp type =
           path_join (path G) [d, pkg_name G @ ''-'' @ pkg_version G @ ''-'' @ type @ ''.sock''])
      \<and> (\<not> truthy_str (process_env (process G) ''XDG_RUNTIME_DIR'') \<longrightarrow>
         getIPCHandle G udp type =
           path_join (path G) [udp, pkg_version G @ ''-'' @ type @ ''.sock'']))"
proof (cases "process_platform (process G) = ''win32''")
  case True
  then have "getIPCHandle G udp type = getWin32IPCHandle G type"
    by (simp add: getIPCHandle_def)
  with True show ?thesis
    using getWin32IPCHandle_user [of G u type] getWin32IPCHandle_no_user [of G type]
    by simp
next
  case False
  then have "getIPCHandle G udp type = getNixIPCHandle G udp type"
    by (simp add: getIPCHandle_def)
  with False show ?thesis
    using getNixIPCHandle_runtime_dir [of G d udp type]
      getNixIPCHandle_user_data [of G udp type]
    by simp
qed

theorem getIPCHandle_format_witness:
  "process_platform (process example_win32_globals) = ''win32''
   \<and> process_env (process example_win32_globals) ''USERNAME'' = Some ''alice''
   \<and> sha256_hex example_win32_globals ''alice'' \<noteq> []
   \<and> getIPCHandle example_win32_globals ''/srv/data'' ''main'' =
        pipe_prefix @ ''code-oss-2bd806-1.12.0-main-sock''
   \<and> process_platform (process example_xdg_globals) \<noteq> ''win32''
   \<and> process_env (process example_xdg_globals) ''XDG_RUNTIME_DIR'' = Some ''/run/user/1000''
   \<and> getIPCHandle example_xdg_globals ''/srv/data'' ''main'' =
        ''/run/user/1000/code-oss-dev-1.12.0-main.sock''
   \<and> process_platform (process example_globals) \<noteq> ''win32''
   \<and> \<not> truthy_str (process_env (process example_globals) ''XDG_RUNTIME_DIR'')
   \<and> getIPCHandle example_globals ''/srv/data'' ''shared'' = ''/srv/data/1.12.0-shared.sock''"
  using getIPCHandle_format [of example_win32_globals "''alice''" "''/srv/data''" "''main''" "[]"]
    getIPCHandle_format [of example_xdg_globals "[]" "''/srv/data''" "''main''" "''/run/user/1000''"]
    getIPCHandle_format [of example_globals "[]" "''/srv/data''" "''shared''" "[]"]
  by (simp add: example_win32_facts example_xdg_facts example_linux_facts truthy_str_None)

section \<open>Properties of the memoized getters\<close>


lemma memoize_miss:
  "cached s = None \<Longrightarrow>
     memoize cached store fn s = (fst (fn s), store (fst (fn s)) (snd (fn s)))"
  by (simp add: memoize_def Let_def case_prod_beta)













































































section \<open>Properties of the constructor and the machine identity\<close>

lemma userDataPath_new_object:
  "userDataPath G (new_object a e) =
     (parseUserDataDir G a (process G),
      (new_object a e)\<lparr>memo_userDataPath := Some (parseUserDataDir G a (process G))\<rparr>)"
  by (simp add: userDataPath_def memoize_miss new_object_def)

lemma constructor_cases:
  "constructor G fs uuid a e =
     (case readFileSync fs (machineIdPath G a) of
        Inr contents \<Rightarrow>
          Inr ((new_object a e)\<lparr>memo_userDataPath := Some (parseUserDataDir G a (process G)),
                 machineUUID := Some contents\<rparr>, fs, [])
      | Inl err \<Rightarrow>
          (case writeFileSync fs (machineIdPath G a) uuid of
             Inr fs1 \<Rightarrow>
               Inr ((new_object a e)\<lparr>memo_userDataPath := Some (parseUserDataDir G a (process G)),
                      machineUUID := Some uuid\<rparr>, fs1, [])
           | Inl err1 \<Rightarrow>
               Inr ((new_object a e)\<lparr>memo_userDataPath := Some (parseUserDataDir G a (process G)),
                      machineUUID := Some uuid\<rparr>, fs, [''Could not store machine ID''])))"
  by (simp add: constructor_def userDataPath_new_object machineIdPath_def Let_def
      split: sum.splits)

lemma constructor_returns: "\<exists>this fs' warnings. constructor G fs uuid a e = Inr (this, fs', warnings)"
  by (simp add: constructor_cases split: sum.splits)

lemma constructor_regenerates:
  assumes "readFileSync fs (machineIdPath G a) = Inl err"
  shows "\<exists>this fs' warnings.
           constructor G fs uuid a e = Inr (this, fs', warnings) \<and> machineUUID this = Some uuid
           \<and> (writeFileSync fs (machineIdPath G a) uuid = Inr fs1 \<longrightarrow> fs' = fs1 \<and> warnings = [])
           \<and> (writeFileSync fs (machineIdPath G a) uuid = Inl err1 \<longrightarrow>
                fs' = fs \<and> warnings = [''Could not store machine ID''])"
  using assms by (simp add: constructor_cases split: sum.splits)

lemma readFileSync_written:
  assumes "writeFileSync fs p c = Inr fs1" and "fs_read_fault fs1 p = None"
  shows "readFileSync fs1 p = Inr c"
  using assms by (auto simp: writeFileSync_def readFileSync_def split: option.splits)

lemma readFileSync_unlinked: "\<exists>err. readFileSync (unlink fs p) p = Inl err"
  by (simp add: readFileSync_def unlink_def split: option.splits)

lemma example_userDataDir:
  "parseUserDataDir example_globals no_args (process example_globals) =
     ''/home/alice/.config/code-oss-dev''"
proof -
  have "\<not> truthy_str (arg_user_data_dir no_args)"
    by (simp add: no_args_def truthy_str_None)
  then have "parseUserDataDir example_globals no_args (process example_globals) =
      path_resolve (path example_globals)
        [getDefaultUserDataPath example_globals (process_platform (process example_globals))]"
    by (rule parseUserDataDir_default)
  also have "\<dots> = ''/home/alice/.config/code-oss-dev''"
    using example_paths(7) by (simp add: example_globals_def)
  finally show ?thesis .
qed

lemma example_machineIdPath:
  "machineIdPath example_globals no_args = ''/home/alice/.config/code-oss-dev/machineid''"
proof -
  have "path_join (path example_globals) [''/home/alice/.config/code-oss-dev'', ''machineid''] =
      ''/home/alice/.config/code-oss-dev/machineid''"
    by (simp add: example_globals_def posix_path_def posix_join_def posix_normalize_def
        normalizeStringPosix_def)
  then show ?thesis by (simp add: machineIdPath_def example_userDataDir)
qed

lemma example_fs_facts:
  "readFileSync example_fs p = Inl ENOENT"
  "readFileSync example_readonly_fs p = Inl ENOENT"
  "writeFileSync example_readonly_fs p c = Inl EACCES"
  "writeFileSync example_fs p c = Inr (example_fs\<lparr>fs_files := [p \<mapsto> c]\<rparr>)"
  "fs_read_fault (example_fs\<lparr>fs_files := m\<rparr>) p = None"
  by (simp_all add: example_fs_def example_readonly_fs_def readFileSync_def writeFileSync_def)

subsection \<open>Claim C7\<close>

text \<open>
  C7. The constructor never throws, whatever the file system does. When the read of the
  machine-identity file fails (missing file, permission or I/O error), the object's
  \<open>machineUUID\<close> is the freshly generated token and a write of it to
  \<open>{userDataPath}/machineid\<close> is attempted: if the write succeeds the file system is the
  one the write leaves and nothing is warned; if it fails the file system is unchanged,
  the one warning \<open>Could not store machine ID\<close> is issued, and \<open>machineUUID\<close> is still the
  generated token.
\<close>

theorem constructor_survives_failures:
  "(\<exists>this fs' warnings. constructor G fs uuid a e = Inr (this, fs', warnings))
   \<and> (readFileSync fs (machineIdPath G a) = Inl err \<longrightarrow>
        (\<exists>this fs' warnings.
           constructor G fs uuid a e = Inr (this, fs', warnings) \<and> machineUUID this = Some uuid
           \<and> (writeFileSync fs (machineIdPath G a) uuid = Inr fs1 \<longrightarrow> fs' = fs1 \<and> warnings = [])
           \<and> (writeFileSync fs (machineIdPath G a) uuid = Inl err1 \<longrightarrow>
                fs' = fs \<and> warnings = [''Could not store machine ID''])))"
  using constructor_returns [of G fs uuid a e] constructor_regenerates [of fs G a err uuid e fs1 err1]
  by blast

theorem constructor_survives_failures_witness:
  "readFileSync example_readonly_fs (machineIdPath example_globals no_args) = Inl ENOENT
   \<and> writeFileSync example_readonly_fs (machineIdPath example_globals no_args)
        ''0c5b1f9e-3a7d-4e21-9b6a-2f8d4c1e7a90'' = Inl EACCES
   \<and> (\<exists>this. constructor example_globals example_readonly_fs
          ''0c5b1f9e-3a7d-4e21-9b6a-2f8d4c1e7a90'' no_args ''code'' =
          Inr (this, example_readonly_fs, [''Could not store machine ID''])
        \<and> machineUUID this = Some ''0c5b1f9e-3a7d-4e21-9b6a-2f8d4c1e7a90'')
   \<and> readFileSync example_fs (machineIdPath example_globals no_args) = Inl ENOENT
   \<and> (\<exists>this. constructor example_globals example_fs
          ''0c5b1f9e-3a7d-4e21-9b6a-2f8d4c1e7a90'' no_args ''code'' =
          Inr (this, example_fs\<lparr>fs_files :=
                 [''/home/alice/.config/code-oss-dev/machineid'' \<mapsto>
                  ''0c5b1f9e-3a7d-4e21-9b6a-2f8d4c1e7a90'']\<rparr>, [])
        \<and> machineUUID this = Some ''0c5b1f9e-3a7d-4e21-9b6a-2f8d4c1e7a90'')"
  using
    constructor_survives_failures [of example_globals example_readonly_fs
      "''0c5b1f9e-3a7d-4e21-9b6a-2f8d4c1e7a90''" no_args "''code''" ENOENT example_readonly_fs
      EACCES]
    constructor_survives_failures [of example_globals example_fs
      "''0c5b1f9e-3a7d-4e21-9b6a-2f8d4c1e7a90''" no_args "''code''" ENOENT
      "example_fs\<lparr>fs_files := [''/home/alice/.config/code-oss-dev/machineid'' \<mapsto>
         ''0c5b1f9e-3a7d-4e21-9b6a-2f8d4c1e7a90'']\<rparr>" EACCES]
  by (simp add: example_fs_facts example_machineIdPath)

subsection \<open>Claim C8\<close>

text \<open>
  C8, as stated, fails when the file can be written and not read. On a file system that
  denies every read, the first construction fails to read, writes its token with success
  and has it as identity; the second construction fails to read again, generates and
  writes its own token and has that one as identity. The write of the first run
  succeeded and the two identities differ.
\<close>

theorem machine_identity_writeonly_counterexample:
  "readFileSync example_writeonly_fs (machineIdPath example_globals no_args) = Inl EACCES
   \<and> constructor example_globals example_writeonly_fs
        ''0c5b1f9e-3a7d-4e21-9b6a-2f8d4c1e7a90'' no_args ''code'' =
       Inr ((new_object no_args ''code'')
              \<lparr>memo_userDataPath := Some ''/home/alice/.config/code-oss-dev'',
               machineUUID := Some ''0c5b1f9e-3a7d-4e21-9b6a-2f8d4c1e7a90''\<rparr>,
            example_writeonly_fs\<lparr>fs_files :=
              [''/home/alice/.config/code-oss-dev/machineid'' \<mapsto>
               ''0c5b1f9e-3a7d-4e21-9b6a-2f8d4c1e7a90'']\<rparr>, [])
   \<and> constructor example_globals
        (example_writeonly_fs\<lparr>fs_files :=
           [''/home/alice/.config/code-oss-dev/machineid'' \<mapsto>
            ''0c5b1f9e-3a7d-4e21-9b6a-2f8d4c1e7a90'']\<rparr>)
        ''7e2d9a40-51c3-4f6b-8a1e-93b0d5c2f418'' no_args ''code'' =
       Inr ((new_object no_args ''code'')
              \<lparr>memo_userDataPath := Some ''/home/alice/.config/code-oss-dev'',
               machineUUID := Some ''7e2d9a40-51c3-4f6b-8a1e-93b0d5c2f418''\<rparr>,
            example_writeonly_fs\<lparr>fs_files :=
              [''/home/alice/.config/code-oss-dev/machineid'' \<mapsto>
               ''7e2d9a40-51c3-4f6b-8a1e-93b0d5c2f418'']\<rparr>, [])
   \<and> ''0c5b1f9e-3a7d-4e21-9b6a-2f8d4c1e7a90'' \<noteq> ''7e2d9a40-51c3-4f6b-8a1e-93b0d5c2f418''"
  by (simp add: constructor_cases example_machineIdPath example_userDataDir readFileSync_def
      writeFileSync_def example_writeonly_fs_def example_fs_def)

text \<open>
  C8, amended. Two constructions in sequence for the same user data path. When the first
  one could not read the identity file and its write succeeded, the second one has the
  identity of the first, whatever token \<open>generateUuid\<close> would have given it, and leaves the
  file system as it is, provided it can read the file; when its read fails too, its
  identity is its own freshly generated token. When the file was there and readable from
  the start, both have its contents as identity. When the file is removed before the
  second construction, the identity of the second is its own freshly generated token.
\<close>

theorem machine_identity_persists:
  "(readFileSync fs (machineIdPath G a) = Inl err
    \<and> writeFileSync fs (machineIdPath G a) uuid1 = Inr fs1
    \<and> fs_read_fault fs1 (machineIdPath G a) = None \<longrightarrow>
      (\<exists>this1 this2.
         constructor G fs uuid1 a e = Inr (this1, fs1, [])
         \<and> constructor G fs1 uuid2 a e2 = Inr (this2, fs1, [])
         \<and> machineUUID this1 = Some uuid1 \<and> machineUUID this2 = Some uuid1))
   \<and> (readFileSync fs1 (machineIdPath G a) = Inl err2 \<longrightarrow>
      (\<exists>this2 fs2 warnings.
         constructor G fs1 uuid2 a e2 = Inr (this2, fs2, warnings)
         \<and> machineUUID this2 = Some uuid2))
   \<and> (readFileSync fs (machineIdPath G a) = Inr contents \<longrightarrow>
      (\<exists>this1 this2.
         constructor G fs uuid1 a e = Inr (this1, fs, [])
         \<and> constructor G fs uuid2 a e2 = Inr (this2, fs, [])
         \<and> machineUUID this1 = Some contents \<and> machineUUID this2 = Some contents))
   \<and> (\<exists>this2 fs2 warnings.
         constructor G (unlink fs1 (machineIdPath G a)) uuid2 a e2 = Inr (this2, fs2, warnings)
         \<and> machineUUID this2 = Some uuid2)"
proof -
  have first: "\<exists>this1 this2.
         constructor G fs uuid1 a e = Inr (this1, fs1, [])
         \<and> constructor G fs1 uuid2 a e2 = Inr (this2, fs1, [])
         \<and> machineUUID this1 = Some uuid1 \<and> machineUUID this2 = Some uuid1"
    if r: "readFileSync fs (machineIdPath G a) = Inl err"
      and w: "writeFileSync fs (machineIdPath G a) uuid1 = Inr fs1"
      and f: "fs_read_fault fs1 (machineIdPath G a) = None"
  proof -
    from w f have "readFileSync fs1 (machineIdPath G a) = Inr uuid1"
      by (rule readFileSync_written)
    with r w show ?thesis by (simp add: constructor_cases)
  qed
  have unreadable: "\<exists>this2 fs2 warnings.
         constructor G fs1 uuid2 a e2 = Inr (this2, fs2, warnings)
         \<and> machineUUID this2 = Some uuid2"
    if "readFileSync fs1 (machineIdPath G a) = Inl err2"
    using that by (simp add: constructor_cases split: sum.splits)
  have existing: "\<exists>this1 this2.
         constructor G fs uuid1 a e = Inr (this1, fs, [])
         \<and> constructor G fs uuid2 a e2 = Inr (this2, fs, [])
         \<and> machineUUID this1 = Some contents \<and> machineUUID this2 = Some contents"
    if "readFileSync fs (machineIdPath G a) = Inr contents"
    using that by (simp add: constructor_cases)
  obtain err3 where "readFileSync (unlink fs1 (machineIdPath G a)) (machineIdPath G a) = Inl err3"
    using readFileSync_unlinked by blast
  then have removed: "\<exists>this2 fs2 warnings.
         constructor G (unlink fs1 (machineIdPath G a)) uuid2 a e2 = Inr (this2, fs2, warnings)
         \<and> machineUUID this2 = Some uuid2"
    by (simp add: constructor_cases split: sum.splits)
  from first unreadable existing removed show ?thesis by blast
qed

theorem machine_identity_persists_witness:
  "readFileSync example_fs (machineIdPath example_globals no_args) = Inl ENOENT
   \<and> writeFileSync example_fs (machineIdPath example_globals no_args)
        ''0c5b1f9e-3a7d-4e21-9b6a-2f8d4c1e7a90'' =
        Inr (example_fs\<lparr>fs_files := [''/home/alice/.config/code-oss-dev/machineid'' \<mapsto>
               ''0c5b1f9e-3a7d-4e21-9b6a-2f8d4c1e7a90'']\<rparr>)
   \<and> fs_read_fault (example_fs\<lparr>fs_files := [''/home/alice/.config/code-oss-dev/machineid'' \<mapsto>
               ''0c5b1f9e-3a7d-4e21-9b6a-2f8d4c1e7a90'']\<rparr>)
        (machineIdPath example_globals no_args) = None
   \<and> (\<exists>this2. constructor example_globals
          (example_fs\<lparr>fs_files := [''/home/alice/.config/code-oss-dev/machineid'' \<mapsto>
               ''0c5b1f9e-3a7d-4e21-9b6a-2f8d4c1e7a90'']\<rparr>)
          ''7e2d9a40-51c3-4f6b-8a1e-93b0d5c2f418'' no_args ''code'' =
          Inr (this2, example_fs\<lparr>fs_files := [''/home/alice/.config/code-oss-dev/machineid'' \<mapsto>
               ''0c5b1f9e-3a7d-4e21-9b6a-2f8d4c1e7a90'']\<rparr>, [])
        \<and> machineUUID this2 = Some ''0c5b1f9e-3a7d-4e21-9b6a-2f8d4c1e7a90'')
   \<and> readFileSync example_writeonly_fs (machineIdPath example_globals no_args) = Inl EACCES
   \<and> (\<exists>this2 fs2 warnings. constructor example_globals example_writeonly_fs
          ''7e2d9a40-51c3-4f6b-8a1e-93b0d5c2f418'' no_args ''code'' = Inr (this2, fs2, warnings)
        \<and> machineUUID this2 = Some ''7e2d9a40-51c3-4f6b-8a1e-93b0d5c2f418'')
   \<and> readFileSync (example_fs\<lparr>fs_files := [''/home/alice/.config/code-oss-dev/machineid'' \<mapsto>
               ''0c5b1f9e-3a7d-4e21-9b6a-2f8d4c1e7a90'']\<rparr>)
        (machineIdPath example_globals no_args) = Inr ''0c5b1f9e-3a7d-4e21-9b6a-2f8d4c1e7a90''"
proof -
  let ?fs1 = "example_fs\<lparr>fs_files := [''/home/alice/.config/code-oss-dev/machineid'' \<mapsto>
               ''0c5b1f9e-3a7d-4e21-9b6a-2f8d4c1e7a90'']\<rparr>"
  have r: "readFileSync example_fs (machineIdPath example_globals no_args) = Inl ENOENT"
    by (simp add: example_fs_facts)
  have w: "writeFileSync example_fs (machineIdPath example_globals no_args)
        ''0c5b1f9e-3a7d-4e21-9b6a-2f8d4c1e7a90'' = Inr ?fs1"
    by (simp add: example_fs_facts example_machineIdPath)
  have f: "fs_read_fault ?fs1 (machineIdPath example_globals no_args) = None"
    by (simp add: example_fs_def)
  have d: "readFileSync example_writeonly_fs (machineIdPath example_globals no_args) =
      Inl EACCES"
    by (simp add: readFileSync_def example_writeonly_fs_def)
  have c: "readFileSync ?fs1 (machineIdPath example_globals no_args) =
      Inr ''0c5b1f9e-3a7d-4e21-9b6a-2f8d4c1e7a90''"
    by (simp add: readFileSync_def example_fs_def example_machineIdPath)
  from r w f
    machine_identity_persists [of example_fs example_globals no_args ENOENT
      "''0c5b1f9e-3a7d-4e21-9b6a-2f8d4c1e7a90''" ?fs1
      "''code''" "''7e2d9a40-51c3-4f6b-8a1e-93b0d5c2f418''" "''code''" ENOENT "[]"]
  have same: "\<exists>this1 this2.
         constructor example_globals example_fs ''0c5b1f9e-3a7d-4e21-9b6a-2f8d4c1e7a90''
           no_args ''code'' = Inr (this1, ?fs1, [])
         \<and> constructor example_globals ?fs1 ''7e2d9a40-51c3-4f6b-8a1e-93b0d5c2f418''
             no_args ''code'' = Inr (this2, ?fs1, [])
         \<and> machineUUID this1 = Some ''0c5b1f9e-3a7d-4e21-9b6a-2f8d4c1e7a90''
         \<and> machineUUID this2 = Some ''0c5b1f9e-3a7d-4e21-9b6a-2f8d4c1e7a90''"
    by blast
  from d
    machine_identity_persists [of example_fs example_globals no_args ENOENT
      "''0c5b1f9e-3a7d-4e21-9b6a-2f8d4c1e7a90''" example_writeonly_fs
      "''code''" "''7e2d9a40-51c3-4f6b-8a1e-93b0d5c2f418''" "''code''" EACCES "[]"]
  have fresh: "\<exists>this2 fs2 warnings. constructor example_globals example_writeonly_fs
          ''7e2d9a40-51c3-4f6b-8a1e-93b0d5c2f418'' no_args ''code'' = Inr (this2, fs2, warnings)
        \<and> machineUUID this2 = Some ''7e2d9a40-51c3-4f6b-8a1e-93b0d5c2f418''"
    by blast
  from r w f d c same fresh show ?thesis by blast
qed

section \<open>Properties of the derived state paths\<close>




















subsection \<open>Claim C3\<close>




section \<open>Stability of the properties\<close>

subsection \<open>Claim C9\<close>





end
